theory Spec2Isabelle
  imports Main "HOL-Library.AList"
begin

section \<open>Strings and numbers of the host language\<close>

text \<open>
  The bridge (\<^verbatim>\<open>screendeckSatellite.js\<close>) and the surface registry
  (\<^verbatim>\<open>api.js\<close>) are JavaScript. A string is modelled as a list of 8-bit
  code units; the case mapping and the white space below are those of JavaScript
  restricted to this range. Numbers that the code handles are integers; where the
  code can meet \<^verbatim>\<open>NaN\<close> or an infinity the model says so.
\<close>

definition dquote :: char where
  "dquote = CHR 0x22"

definition backslash :: char where
  "backslash = CHR 0x5C"

definition newline :: char where
  "newline = CHR 0x0A"

definition carriage_return :: char where
  "carriage_return = CHR 0x0D"

text \<open>\<^verbatim>\<open>s.indexOf(c)\<close>: the first position of \<open>c\<close>, \<open>None\<close> for \<open>-1\<close>.\<close>

definition indexOf :: "char \<Rightarrow> string \<Rightarrow> nat option" where
  "indexOf c s = (if c \<in> set s then Some (length (takeWhile (\<lambda>d. d \<noteq> c) s)) else None)"

text \<open>\<^verbatim>\<open>s.toUpperCase()\<close> on the letters a-z; every other code unit is kept.\<close>

definition upperChar :: "char \<Rightarrow> char" where
  "upperChar c =
     (case map_of (zip ''abcdefghijklmnopqrstuvwxyz'' ''ABCDEFGHIJKLMNOPQRSTUVWXYZ'') c of
        Some u \<Rightarrow> u
      | None \<Rightarrow> c)"

definition toUpperCase :: "string \<Rightarrow> string" where
  "toUpperCase s = map upperChar s"

text \<open>White space that \<^verbatim>\<open>parseInt\<close> and \<^verbatim>\<open>trim\<close> strip: TAB, LF, VT, FF, CR,
  SP and NBSP.\<close>

definition isWhiteSpace :: "char \<Rightarrow> bool" where
  "isWhiteSpace c \<longleftrightarrow> (of_char c :: nat) \<in> {9, 10, 11, 12, 13, 32, 160}"

definition trim :: "string \<Rightarrow> string" where
  "trim s = rev (dropWhile isWhiteSpace (rev (dropWhile isWhiteSpace s)))"

definition digitVal :: "char \<Rightarrow> int option" where
  "digitVal c = map_of (zip ''0123456789'' [0, 1, 2, 3, 4, 5, 6, 7, 8, 9]) c"

definition isDigit :: "char \<Rightarrow> bool" where
  "isDigit c \<longleftrightarrow> digitVal c \<noteq> None"

definition digitsValue :: "string \<Rightarrow> int" where
  "digitsValue ds = foldl (\<lambda>a c. 10 * a + (case digitVal c of Some d \<Rightarrow> d | None \<Rightarrow> 0)) 0 ds"

text \<open>
  The result of \<^verbatim>\<open>Number.parseInt(s, 10)\<close>: \<open>NaN\<close>, an infinity (a digit string
  whose value rounds beyond the largest double), or a finite number. A finite result
  above \<open>2^53\<close> is rounded by JavaScript to the nearest double; every caller compares
  it with bounds far below that, so the model keeps the exact integer.
\<close>

datatype jsnum = NaN | Infinite | Num int

definition doubleOverflow :: int where
  "doubleOverflow = 2 ^ 1024 - 2 ^ 970"

definition parseInt10 :: "string \<Rightarrow> jsnum" where
  "parseInt10 s =
     (let t = dropWhile isWhiteSpace s;
          neg = (t \<noteq> [] \<and> hd t = CHR ''-'');
          u = (if t \<noteq> [] \<and> (hd t = CHR ''-'' \<or> hd t = CHR ''+'') then tl t else t);
          z = takeWhile isDigit u
      in if z = [] then NaN
         else if doubleOverflow \<le> digitsValue z then Infinite
         else Num (if neg then - digitsValue z else digitsValue z))"

text \<open>Decimal text of an integer, as a template literal renders a number.\<close>

fun natDigits :: "nat \<Rightarrow> string" where
  "natDigits n =
     (if n < 10 then [''0123456789'' ! n]
      else natDigits (n div 10) @ [''0123456789'' ! (n mod 10)])"

definition showInt :: "int \<Rightarrow> string" where
  "showInt i = (if i < 0 then CHR ''-'' # natDigits (nat (- i)) else natDigits (nat i))"

section \<open>Command codec\<close>

text \<open>
  \<^verbatim>\<open>clampInt(value, min, max, fallback)\<close> of the bridge. Its first argument here is
  \<^verbatim>\<open>String(value)\<close>, which is all the function reads of the value.
\<close>

definition clampInt :: "string \<Rightarrow> int \<Rightarrow> int \<Rightarrow> int \<Rightarrow> int" where
  "clampInt value_str mn mx fallback =
     (case parseInt10 value_str of
        Num n \<Rightarrow> max mn (min mx n)
      | _ \<Rightarrow> fallback)"

text \<open>
  \<^verbatim>\<open>splitTokensPreservingQuotes\<close>: the loop over the characters, with the loop
  variables \<open>tokens\<close>, \<open>cur\<close> and \<open>inQuotes\<close> as arguments. The empty list is the end
  of the loop and the final flush.
\<close>

fun scanTokens :: "string list \<Rightarrow> string \<Rightarrow> bool \<Rightarrow> string \<Rightarrow> string list" where
  "scanTokens tokens cur inQuotes [] = (if cur \<noteq> [] then tokens @ [cur] else tokens)"
| "scanTokens tokens cur inQuotes (c # rest) =
     (if c = backslash then
        (case rest of
           [] \<Rightarrow> scanTokens tokens cur inQuotes []
         | d # rest' \<Rightarrow> scanTokens tokens (cur @ [d]) inQuotes rest')
      else if c = dquote then scanTokens tokens cur (\<not> inQuotes) rest
      else if \<not> inQuotes \<and> c = CHR '' '' then
        scanTokens (if cur \<noteq> [] then tokens @ [cur] else tokens) [] inQuotes rest
      else scanTokens tokens (cur @ [c]) inQuotes rest)"

definition splitTokensPreservingQuotes :: "string \<Rightarrow> string list" where
  "splitTokensPreservingQuotes line = scanTokens [] [] False line"

text \<open>
  The same loop without the flush that follows it: the loop variables \<open>tokens\<close>,
  \<open>cur\<close> and \<open>inQuotes\<close> when the last character has been read.
\<close>

fun scanState :: "string list \<Rightarrow> string \<Rightarrow> bool \<Rightarrow> string \<Rightarrow> string list \<times> string \<times> bool" where
  "scanState tokens cur inQuotes [] = (tokens, cur, inQuotes)"
| "scanState tokens cur inQuotes (c # rest) =
     (if c = backslash then
        (case rest of
           [] \<Rightarrow> scanState tokens cur inQuotes []
         | d # rest' \<Rightarrow> scanState tokens (cur @ [d]) inQuotes rest')
      else if c = dquote then scanState tokens cur (\<not> inQuotes) rest
      else if \<not> inQuotes \<and> c = CHR '' '' then
        scanState (if cur \<noteq> [] then tokens @ [cur] else tokens) [] inQuotes rest
      else scanState tokens (cur @ [c]) inQuotes rest)"
text \<open>
  A parameter value is the flag \<^verbatim>\<open>true\<close> or a string. The parameter object is a
  map from its own property names; a name that is not set reads as \<^verbatim>\<open>undefined\<close>
  (\<open>None\<close>). Assigning to \<^verbatim>\<open>__proto__\<close> with a value that is not an object sets no
  property.
\<close>

datatype pval = PTrue | PStr string

type_synonym params = "string \<rightharpoonup> pval"

definition setProp :: "params \<Rightarrow> string \<Rightarrow> pval \<Rightarrow> params" where
  "setProp out k v = (if k = ''__proto__'' then out else out(k \<mapsto> v))"

definition parseToken :: "params \<Rightarrow> string \<Rightarrow> params" where
  "parseToken out t =
     (case indexOf CHR ''='' t of
        None \<Rightarrow> setProp out t PTrue
      | Some eq \<Rightarrow> setProp out (take eq t) (PStr (drop (eq + 1) t)))"

definition parseParams :: "string \<Rightarrow> params" where
  "parseParams body = foldl parseToken Map.empty (splitTokensPreservingQuotes body)"

text \<open>\<^verbatim>\<open>String(v)\<close> of a parameter read from the object.\<close>

definition paramString :: "pval option \<Rightarrow> string" where
  "paramString v = (case v of None \<Rightarrow> ''undefined'' | Some PTrue \<Rightarrow> ''true'' | Some (PStr s) \<Rightarrow> s)"

text \<open>\<^verbatim>\<open>safeString(v, '')\<close> of a parameter.\<close>

definition safeString :: "pval option \<Rightarrow> string" where
  "safeString v = (case v of Some (PStr s) \<Rightarrow> s | _ \<Rightarrow> [])"

section \<open>Devices and key addressing\<close>

record device =
  id_dev :: string
  columns :: int
  rows :: int
  bitmap :: int
  backgroundColor :: string
  backgroundOpacity :: int
  alwaysOnTop :: bool
  movable :: bool
  disableButtonPresses :: bool

text \<open>\<^verbatim>\<open>s.split(sep)\<close> for a one-character separator.\<close>

fun splitOn :: "char \<Rightarrow> string \<Rightarrow> string list" where
  "splitOn sep [] = [[]]"
| "splitOn sep (c # cs) =
     (if c = sep then [] # splitOn sep cs
      else (case splitOn sep cs of
              p # ps \<Rightarrow> (c # p) # ps
            | [] \<Rightarrow> [[c]]))"

text \<open>An element of a destructured array, passed to \<^verbatim>\<open>String\<close>: a missing element is
  \<^verbatim>\<open>undefined\<close>.\<close>

definition elemString :: "string list \<Rightarrow> nat \<Rightarrow> string" where
  "elemString parts i = (if i < length parts then parts ! i else ''undefined'')"

text \<open>
  The key addressing of the \<^verbatim>\<open>KEY-STATE\<close> branch of \<^verbatim>\<open>handleLine\<close>: the pair
  \<open>(x, y)\<close> computed from \<^verbatim>\<open>params.KEY\<close>. The key index is never negative, so the
  remainder and \<^verbatim>\<open>Math.floor\<close> of the quotient are \<open>mod\<close> and \<open>div\<close> for a device
  with at least one column.
\<close>

definition keyAddress :: "device \<Rightarrow> pval option \<Rightarrow> int \<times> int" where
  "keyAddress dev key =
     (case key of
        Some (PStr k) \<Rightarrow>
          if CHR ''/'' \<in> set k then
            (let parts = take 2 (splitOn CHR ''/'' k);
                 y = clampInt (elemString parts 0) 0 (rows dev - 1) 0;
                 x = clampInt (elemString parts 1) 0 (columns dev - 1) 0
             in (x, y))
          else
            (let keyIndex = clampInt k 0 (columns dev * rows dev - 1) 0
             in (keyIndex mod columns dev, keyIndex div columns dev))
      | _ \<Rightarrow>
          (let keyIndex = clampInt (paramString key) 0 (columns dev * rows dev - 1) 0
           in (keyIndex mod columns dev, keyIndex div columns dev)))"

section \<open>The bridge: state, environment and effects\<close>

text \<open>
  The state object sent with a per-key update: the four properties \<^verbatim>\<open>text\<close>,
  \<^verbatim>\<open>bgColor\<close>, \<^verbatim>\<open>color\<close> and \<^verbatim>\<open>imageDataUrl\<close>, \<open>None\<close> for
  \<^verbatim>\<open>undefined\<close>.
\<close>

record key_state =
  ks_text :: "string option"
  ks_bgColor :: "string option"
  ks_color :: "string option"
  ks_imageDataUrl :: "string option"

datatype win_msg =
    ScreendeckClear
  | ScreendeckDraw int int key_state

text \<open>
  What the bridge does to the outside: writes to its socket and calls on presentation
  windows, in the order in which the code makes them.
\<close>

datatype effect =
    SocketWrite nat string
  | SocketDestroy nat
  | SocketConnect nat int string
  | WindowCreate nat string int int bool bool
  | WindowLoadURL nat int string
  | WindowShow nat
  | WindowFocus nat
  | WindowClose nat
  | WindowSend nat win_msg

text \<open>
  The stored configuration \<^verbatim>\<open>config.get('screenDeck')\<close> as the bridge reads it.
  A numeric field is held as \<^verbatim>\<open>String(field)\<close>, a field that must be a string as
  \<open>Some\<close> of it when it is one, a flag as its truth value. An entry of the device list
  that is not an object is \<open>None\<close>; a device list that is not an array is \<open>[]\<close>.
\<close>

record raw_device =
  raw_id :: "string option"
  raw_columns :: string
  raw_rows :: string
  raw_bitmap :: string
  raw_backgroundColor :: "string option"
  raw_backgroundOpacity :: string
  raw_alwaysOnTop :: bool
  raw_movable :: bool
  raw_disableButtonPresses :: bool

record sd_config =
  companionHost :: "string option"
  companionPort :: string
  cfg_devices :: "raw_device option list"

text \<open>
  The functions of Node's \<^verbatim>\<open>Buffer\<close> that the per-key update uses: the bytes of a
  base64 text, the base64 text of bytes, and bytes read as UTF-8. None of them throws
  for a string or a buffer, so the \<^verbatim>\<open>catch\<close> branches around them are not entered.
\<close>

record buffer_lib =
  fromBase64 :: "string \<Rightarrow> nat list"
  toBase64 :: "nat list \<Rightarrow> string"
  utf8 :: "nat list \<Rightarrow> string"

text \<open>
  The fields of \<^verbatim>\<open>ScreenDeckSatellite\<close>, followed by the environment it runs in:
  the stored configuration, the timers of the event loop that have not fired
  (handle and delay), the handles given out so far, the windows that report
  \<^verbatim>\<open>isDestroyed()\<close>, and the effects made so far. \<^verbatim>\<open>devices\<close> and
  \<^verbatim>\<open>windows\<close> are \<^verbatim>\<open>Map\<close>s and keep their insertion order.
\<close>

record bridge =
  apiPort :: "int option"
  socket :: "nat option"
  buffer :: string
  connected :: bool
  connecting :: bool
  reconnectTimer :: "nat option"
  lastBegin :: "params option"
  devices :: "(string \<times> device) list"
  windows :: "(string \<times> nat) list"
  registeredDevices :: "string set"
  pendingDevices :: "string set"
  config :: sd_config
  timers :: "(nat \<times> nat) list"
  nextTimer :: nat
  nextSocket :: nat
  nextWindow :: nat
  destroyedWindows :: "nat set"
  trace :: "effect list"

definition emptyConfig :: sd_config where
  "emptyConfig = \<lparr>companionHost = None, companionPort = ''undefined'', cfg_devices = []\<rparr>"

text \<open>The constructor.\<close>

definition initial :: bridge where
  "initial =
     \<lparr>apiPort = None, socket = None, buffer = [], connected = False, connecting = False,
      reconnectTimer = None, lastBegin = None, devices = [], windows = [],
      registeredDevices = {}, pendingDevices = {}, config = emptyConfig, timers = [],
      nextTimer = 0, nextSocket = 0, nextWindow = 0, destroyedWindows = {}, trace = []\<rparr>"

definition emit :: "effect list \<Rightarrow> bridge \<Rightarrow> bridge" where
  "emit es s = s\<lparr>trace := trace s @ es\<rparr>"

text \<open>
  A method ends by returning or by raising an exception. Either way it leaves the
  object in a state, and that state is what the next event finds: what a method has
  assigned before it raises stays assigned.
\<close>

datatype outcome = Returns bridge | Throws bridge

fun stateOf :: "outcome \<Rightarrow> bridge" where
  "stateOf (Returns s) = s"
| "stateOf (Throws s) = s"

fun raised :: "outcome \<Rightarrow> bool" where
  "raised (Returns s) = False"
| "raised (Throws s) = True"

text \<open>
  \<open>andThen r f\<close>: the statements \<open>f\<close> that follow a call that ended as \<open>r\<close>; they run
  only if the call returned. \<open>forEach\<close> is a \<^verbatim>\<open>for ... of\<close> loop whose body is one
  call.
\<close>

definition andThen :: "outcome \<Rightarrow> (bridge \<Rightarrow> outcome) \<Rightarrow> outcome" where
  "andThen r f = (case r of Returns s \<Rightarrow> f s | Throws s \<Rightarrow> Throws s)"

fun forEach :: "('a \<Rightarrow> bridge \<Rightarrow> outcome) \<Rightarrow> 'a list \<Rightarrow> bridge \<Rightarrow> outcome" where
  "forEach f [] s = Returns s"
| "forEach f (x # xs) s = andThen (f x s) (forEach f xs)"

text \<open>
  The surface registry as the bridge reaches it. \<^verbatim>\<open>api.js\<close> exports the class
  \<^verbatim>\<open>API\<close>, whose static members are \<^verbatim>\<open>start\<close>, \<^verbatim>\<open>sendControlStatus\<close>,
  \<^verbatim>\<open>sendMIDIBack\<close>, \<^verbatim>\<open>sendLog\<close>, \<^verbatim>\<open>broadcastTriggers\<close> and
  \<^verbatim>\<open>broadcastLogsCleared\<close>. It has no member \<^verbatim>\<open>internalRegisterSurface\<close>,
  \<^verbatim>\<open>internalRemoveSurface\<close>, \<^verbatim>\<open>internalSurfaceKey\<close>, \<^verbatim>\<open>internalSurfaceClear\<close>
  or \<^verbatim>\<open>internalSurfaceDraw\<close>: each of them reads as \<^verbatim>\<open>undefined\<close>, and the call of
  it raises \<^verbatim>\<open>TypeError\<close> once its argument, an object literal, is built. The
  registry is not called and nothing is changed.
\<close>

definition internalRegisterSurface :: "device \<Rightarrow> bridge \<Rightarrow> outcome" where
  "internalRegisterSurface dev s = Throws s"

definition internalRemoveSurface :: "string \<Rightarrow> bridge \<Rightarrow> outcome" where
  "internalRemoveSurface surfaceId s = Throws s"

definition internalSurfaceKey :: "string \<Rightarrow> int \<Rightarrow> int \<Rightarrow> string \<Rightarrow> bridge \<Rightarrow> outcome" where
  "internalSurfaceKey surfaceId x y action s = Throws s"

definition internalSurfaceClear :: "string \<Rightarrow> bridge \<Rightarrow> outcome" where
  "internalSurfaceClear surfaceId s = Throws s"

definition internalSurfaceDraw :: "string \<Rightarrow> int \<Rightarrow> int \<Rightarrow> key_state \<Rightarrow> bridge \<Rightarrow> outcome" where
  "internalSurfaceDraw surfaceId x y st s = Throws s"

record status =
  st_connected :: bool
  st_connecting :: bool
  companionVersion :: "string option"
  companionApiVersion :: "string option"
  deviceCount :: nat
  registeredCount :: nat

text \<open>\<^verbatim>\<open>safeString(v, null)\<close> of a property of the peer announcement.\<close>

definition safeStringOrNull :: "pval option \<Rightarrow> string option" where
  "safeStringOrNull v = (case v of Some (PStr s) \<Rightarrow> Some s | _ \<Rightarrow> None)"

definition getStatus :: "bridge \<Rightarrow> status" where
  "getStatus s =
     \<lparr>st_connected = connected s,
      st_connecting = connecting s,
      companionVersion =
        (case lastBegin s of Some b \<Rightarrow> safeStringOrNull (b ''CompanionVersion'') | None \<Rightarrow> None),
      companionApiVersion =
        (case lastBegin s of Some b \<Rightarrow> safeStringOrNull (b ''ApiVersion'') | None \<Rightarrow> None),
      deviceCount = length (devices s),
      registeredCount = card (registeredDevices s)\<rparr>"

section \<open>Connection state machine\<close>

definition disconnect :: "bridge \<Rightarrow> bridge" where
  "disconnect s =
     (let s1 = s\<lparr>connecting := False, connected := False, lastBegin := None,
                 registeredDevices := {}, pendingDevices := {}, buffer := []\<rparr>;
          s2 = (case reconnectTimer s1 of
                  Some t \<Rightarrow> s1\<lparr>timers := filter (\<lambda>e. fst e \<noteq> t) (timers s1), reconnectTimer := None\<rparr>
                | None \<Rightarrow> s1);
          sk = socket s2;
          s3 = s2\<lparr>socket := None\<rparr>
      in (case sk of Some k \<Rightarrow> emit [SocketDestroy k] s3 | None \<Rightarrow> s3))"

text \<open>
  \<^verbatim>\<open>connect(host, port)\<close>. The port is clamped to 1..65535 and the host is a string,
  so \<^verbatim>\<open>socket.connect\<close> does not throw and the \<^verbatim>\<open>catch\<close> is not entered. The
  handlers that \<^verbatim>\<open>connect\<close> attaches to the socket are the socket events of
  \<open>step\<close> below.
\<close>

definition connect :: "string \<Rightarrow> int \<Rightarrow> bridge \<Rightarrow> bridge" where
  "connect host port s =
     (let s1 = disconnect s;
          s2 = s1\<lparr>connecting := True, connected := False, lastBegin := None,
                  registeredDevices := {}, pendingDevices := {}\<rparr>;
          k = nextSocket s2;
          s3 = s2\<lparr>socket := Some k, nextSocket := k + 1\<rparr>
      in emit [SocketConnect k port host] s3)"

definition reconnect :: "bridge \<Rightarrow> bridge" where
  "reconnect s =
     (let host = (case companionHost (config s) of
                    Some h \<Rightarrow> if trim h \<noteq> [] then trim h else ''127.0.0.1''
                  | None \<Rightarrow> ''127.0.0.1'');
          port = clampInt (companionPort (config s)) 1 65535 16622
      in if length (devices s) = 0 then disconnect s else connect host port s)"

definition scheduleReconnect :: "bridge \<Rightarrow> bridge" where
  "scheduleReconnect s =
     (if reconnectTimer s \<noteq> None then s
      else if length (devices s) = 0 then s
      else s\<lparr>reconnectTimer := Some (nextTimer s),
             timers := timers s @ [(nextTimer s, 1000)],
             nextTimer := nextTimer s + 1\<rparr>)"

text \<open>The callback of the reconnect timer.\<close>

definition reconnectTimerCallback :: "bridge \<Rightarrow> bridge" where
  "reconnectTimerCallback s = reconnect (s\<lparr>reconnectTimer := None\<rparr>)"

text \<open>The \<^verbatim>\<open>connect\<close>, \<^verbatim>\<open>error\<close> and \<^verbatim>\<open>close\<close> handlers of the socket.\<close>

definition onSocketConnect :: "bridge \<Rightarrow> bridge" where
  "onSocketConnect s = s\<lparr>connecting := True, connected := True, buffer := []\<rparr>"

definition onSocketError :: "bridge \<Rightarrow> bridge" where
  "onSocketError s =
     scheduleReconnect (s\<lparr>connecting := False, connected := False, lastBegin := None,
                          registeredDevices := {}, pendingDevices := {}\<rparr>)"

definition onSocketClose :: "bridge \<Rightarrow> bridge" where
  "onSocketClose s =
     scheduleReconnect (s\<lparr>connecting := False, connected := False, lastBegin := None,
                          registeredDevices := {}, pendingDevices := {}\<rparr>)"

section \<open>Outgoing commands\<close>

definition endsWithNewline :: "string \<Rightarrow> bool" where
  "endsWithNewline line \<longleftrightarrow> line \<noteq> [] \<and> last line = newline"

text \<open>\<^verbatim>\<open>sendLine\<close>: a write that throws is ignored by the code; the effect recorded is
  the call of \<^verbatim>\<open>socket.write\<close>.\<close>

definition sendLine :: "string \<Rightarrow> bridge \<Rightarrow> bridge" where
  "sendLine line s =
     (case socket s of
        None \<Rightarrow> s
      | Some k \<Rightarrow>
          if \<not> connected s then s
          else emit [SocketWrite k (if endsWithNewline line then line else line @ [newline])] s)"

datatype argval = ABool bool | ANum int | AStr string

definition renderArg :: "string \<times> argval \<Rightarrow> string" where
  "renderArg kv =
     (case snd kv of
        ABool b \<Rightarrow> fst kv @ ''='' @ (if b then ''1'' else ''0'')
      | ANum n \<Rightarrow> fst kv @ ''='' @ showInt n
      | AStr v \<Rightarrow> fst kv @ ''='' @ [dquote] @ v @ [dquote])"

text \<open>\<^verbatim>\<open>chunks.join(' ')\<close>.\<close>

fun joinSpace :: "string list \<Rightarrow> string" where
  "joinSpace [] = []"
| "joinSpace [x] = x"
| "joinSpace (x # y # ys) = x @ '' '' @ joinSpace (y # ys)"

definition sendCommand :: "string \<Rightarrow> (string \<times> argval) list \<Rightarrow> bridge \<Rightarrow> bridge" where
  "sendCommand cmd args s = sendLine (joinSpace (cmd # map renderArg args)) s"

text \<open>The arguments of the \<^verbatim>\<open>ADD-DEVICE\<close> command; \<^verbatim>\<open>W10=\<close> is the base64 text of
  \<^verbatim>\<open>JSON.stringify([])\<close>.\<close>

definition addDeviceArgs :: "device \<Rightarrow> (string \<times> argval) list" where
  "addDeviceArgs dev =
     [(''DEVICEID'', AStr (id_dev dev)),
      (''PRODUCT_NAME'', AStr (''ScreenDeck '' @ id_dev dev)),
      (''KEYS_TOTAL'', ANum (columns dev * rows dev)),
      (''KEYS_PER_ROW'', ANum (columns dev)),
      (''BITMAPS'', ANum (bitmap dev)),
      (''COLORS'', ABool True),
      (''TEXT'', ABool True),
      (''TEXT_STYLE'', ABool False),
      (''VARIABLES'', AStr ''W10=''),
      (''BRIGHTNESS'', ANum 100),
      (''PINCODE_LOCK'', AStr [])]"

definition addDeviceToCompanion :: "device \<Rightarrow> bridge \<Rightarrow> bridge" where
  "addDeviceToCompanion dev s =
     (if \<not> connected s \<or> socket s = None then s
      else if id_dev dev \<in> registeredDevices s \<or> id_dev dev \<in> pendingDevices s then s
      else sendCommand ''ADD-DEVICE'' (addDeviceArgs dev)
             (s\<lparr>pendingDevices := insert (id_dev dev) (pendingDevices s)\<rparr>))"

text \<open>\<^verbatim>\<open>keyPress\<close>: the command is written, then the call of the registry raises.\<close>

definition keyPress :: "string \<Rightarrow> string \<Rightarrow> string \<Rightarrow> bool \<Rightarrow> bridge \<Rightarrow> outcome" where
  "keyPress deviceId x_str y_str pressed s =
     (case map_of (devices s) deviceId of
        None \<Rightarrow> Returns s
      | Some dev \<Rightarrow>
          (let xi = clampInt x_str 0 (columns dev - 1) 0;
               yi = clampInt y_str 0 (rows dev - 1) 0;
               keyIndex = yi * columns dev + xi;
               s1 = sendCommand ''KEY-PRESS''
                      [(''DEVICEID'', AStr deviceId), (''KEY'', ANum keyIndex),
                       (''PRESSED'', ABool pressed)] s
           in internalSurfaceKey deviceId xi yi (if pressed then ''press'' else ''release'') s1))"

section \<open>Presentation windows and configuration reload\<close>

definition truthyPort :: "int option \<Rightarrow> bool" where
  "truthyPort p \<longleftrightarrow> p \<noteq> None \<and> p \<noteq> Some 0"

definition openWindow :: "string \<Rightarrow> bridge \<Rightarrow> bridge" where
  "openWindow deviceId s =
     (case map_of (devices s) deviceId of
        None \<Rightarrow> s
      | Some dev \<Rightarrow>
          if \<not> truthyPort (apiPort s) then s
          else if (case map_of (windows s) deviceId of
                     Some w \<Rightarrow> w \<notin> destroyedWindows s
                   | None \<Rightarrow> False)
          then emit [WindowShow (the (map_of (windows s) deviceId)),
                     WindowFocus (the (map_of (windows s) deviceId))] s
          else
            (let bm = (if bitmap dev = 0 then 72 else bitmap dev);
                 cols = (if columns dev = 0 then 8 else columns dev);
                 rws = (if rows dev = 0 then 4 else rows dev);
                 padding = 16;
                 gap = 10;
                 width = max 300 (padding * 2 + cols * bm + (cols - 1) * gap + 40);
                 height = max 240 (padding * 2 + rws * bm + (rws - 1) * gap + 80);
                 w = nextWindow s;
                 s1 = emit [WindowCreate w (''ScreenDeck: '' @ deviceId) width height
                              (alwaysOnTop dev) (movable dev),
                            WindowLoadURL w (the (apiPort s)) deviceId] s
             in s1\<lparr>nextWindow := w + 1, windows := AList.update deviceId w (windows s1)\<rparr>))"

definition openAllWindows :: "bridge \<Rightarrow> bridge" where
  "openAllWindows s =
     (if \<not> truthyPort (apiPort s) then s
      else foldl (\<lambda>t dev. openWindow (id_dev dev) t) s (map snd (devices s)))"

text \<open>The \<^verbatim>\<open>closed\<close> handler of a window opened for \<open>deviceId\<close>.\<close>

definition onWindowClosed :: "string \<Rightarrow> bridge \<Rightarrow> bridge" where
  "onWindowClosed deviceId s = s\<lparr>windows := AList.delete deviceId (windows s)\<rparr>"

definition broadcastToDeviceWindow :: "string \<Rightarrow> win_msg \<Rightarrow> bridge \<Rightarrow> bridge" where
  "broadcastToDeviceWindow deviceId msg s =
     (case map_of (windows s) deviceId of
        None \<Rightarrow> s
      | Some w \<Rightarrow> if w \<in> destroyedWindows s then s else emit [WindowSend w msg] s)"

text \<open>One turn of the loop of \<^verbatim>\<open>reloadFromConfig\<close> that fills \<^verbatim>\<open>devices\<close>.\<close>

definition loadDevice :: "(string \<times> device) list \<Rightarrow> raw_device option \<Rightarrow> (string \<times> device) list" where
  "loadDevice devs d =
     (case d of
        None \<Rightarrow> devs
      | Some r \<Rightarrow>
          (let i = (case raw_id r of Some x \<Rightarrow> trim x | None \<Rightarrow> [])
           in if i = [] then devs
              else AList.update i
                     \<lparr>id_dev = i,
                      columns = clampInt (raw_columns r) 1 32 8,
                      rows = clampInt (raw_rows r) 1 32 4,
                      bitmap = clampInt (raw_bitmap r) 1 512 72,
                      backgroundColor =
                        (case raw_backgroundColor r of Some c \<Rightarrow> c | None \<Rightarrow> ''#000000''),
                      backgroundOpacity = clampInt (raw_backgroundOpacity r) 0 100 60,
                      alwaysOnTop = raw_alwaysOnTop r,
                      movable = raw_movable r,
                      disableButtonPresses = raw_disableButtonPresses r\<rparr> devs))"

text \<open>
  \<^verbatim>\<open>reloadFromConfig\<close>: the device table is rebuilt first. Then come the loop that
  registers every device, the loop that removes the devices no longer configured, and
  the loop that closes their windows. The first call in either of the first two loops
  raises, so the method returns only when no device is configured and none was before.
\<close>

definition reloadFromConfig :: "bridge \<Rightarrow> outcome" where
  "reloadFromConfig s =
     (let previousIds = map fst (devices s);
          devs = foldl loadDevice [] (cfg_devices (config s));
          s1 = s\<lparr>devices := devs\<rparr>
      in andThen (forEach internalRegisterSurface (map snd devs) s1) (\<lambda>s2.
         andThen (forEach internalRemoveSurface
                    (filter (\<lambda>i. map_of devs i = None) previousIds) s2) (\<lambda>s3.
           (let gone = filter (\<lambda>e. map_of devs (fst e) = None) (windows s3);
                s4 = emit (map (\<lambda>e. WindowClose (snd e)) gone) s3
            in Returns (s4\<lparr>windows := filter (\<lambda>e. map_of devs (fst e) \<noteq> None) (windows s4)\<rparr>)))))"

section \<open>Protocol bridge: incoming commands\<close>

text \<open>
  The branches of \<^verbatim>\<open>handleLine\<close>, one definition for each verb that has a body. The
  branches of \<^verbatim>\<open>KEYS-CLEAR\<close> and \<^verbatim>\<open>KEY-STATE\<close> call the surface registry before
  they notify the presentation window, so they raise before the window is told.
\<close>

definition handleBegin :: "params \<Rightarrow> bridge \<Rightarrow> bridge" where
  "handleBegin ps s =
     foldl (\<lambda>t dev. addDeviceToCompanion dev t)
       (s\<lparr>lastBegin := Some ps, connecting := False\<rparr>) (map snd (devices s))"

definition handleAddDevice :: "params \<Rightarrow> bridge \<Rightarrow> bridge" where
  "handleAddDevice ps s =
     (let ok = (ps ''OK'' = Some PTrue \<or> ps ''OK'' = Some (PStr ''1''));
          err = (case ps ''ERROR'' of None \<Rightarrow> False | Some PTrue \<Rightarrow> True | Some (PStr e) \<Rightarrow> e \<noteq> [])
      in (case ps ''DEVICEID'' of
            Some (PStr deviceId) \<Rightarrow>
              if deviceId \<noteq> [] then
                (let s1 = s\<lparr>pendingDevices := pendingDevices s - {deviceId}\<rparr>
                 in if ok \<and> \<not> err
                    then s1\<lparr>registeredDevices := insert deviceId (registeredDevices s1)\<rparr>
                    else s1)
              else s
          | _ \<Rightarrow> s))"

definition handleKeysClear :: "params \<Rightarrow> bridge \<Rightarrow> outcome" where
  "handleKeysClear ps s =
     (let deviceId = safeString (ps ''DEVICEID'')
      in if deviceId = [] then Returns s
         else andThen (internalSurfaceClear deviceId s)
                (\<lambda>t. Returns (broadcastToDeviceWindow deviceId ScreendeckClear t)))"

definition detectImageMime :: "nat list \<Rightarrow> string option" where
  "detectImageMime b =
     (if length b < 4 then None
      else if b ! 0 = 0x89 \<and> b ! 1 = 0x50 \<and> b ! 2 = 0x4e \<and> b ! 3 = 0x47 then Some ''image/png''
      else if b ! 0 = 0xff \<and> b ! 1 = 0xd8 then Some ''image/jpeg''
      else if b ! 0 = 0x42 \<and> b ! 1 = 0x4d then Some ''image/bmp''
      else if b ! 0 = 0x47 \<and> b ! 1 = 0x49 \<and> b ! 2 = 0x46 then Some ''image/gif''
      else None)"

text \<open>\<^verbatim>\<open>v || undefined\<close> of a string or \<^verbatim>\<open>null\<close>.\<close>

definition orUndefined :: "string option \<Rightarrow> string option" where
  "orUndefined v = (case v of Some t \<Rightarrow> if t = [] then None else Some t | None \<Rightarrow> None)"

definition keyStateOf :: "buffer_lib \<Rightarrow> params \<Rightarrow> key_state" where
  "keyStateOf B ps =
     (let imageDataUrl =
            (case ps ''BITMAP'' of
               Some (PStr b) \<Rightarrow>
                 if b \<noteq> [] then
                   (let buf = fromBase64 B b;
                        mime = (case detectImageMime buf of
                                  Some m \<Rightarrow> m
                                | None \<Rightarrow> ''application/octet-stream'')
                    in Some (''data:'' @ mime @ '';base64,'' @ toBase64 B buf))
                 else None
             | _ \<Rightarrow> None);
          text = (case ps ''TEXT'' of
                    Some (PStr t) \<Rightarrow> if t \<noteq> [] then Some (utf8 B (fromBase64 B t)) else None
                  | _ \<Rightarrow> None);
          color = (case ps ''COLOR'' of Some (PStr c) \<Rightarrow> Some c | _ \<Rightarrow> None)
      in \<lparr>ks_text = orUndefined text, ks_bgColor = None, ks_color = orUndefined color,
          ks_imageDataUrl = orUndefined imageDataUrl\<rparr>)"

definition handleKeyState :: "buffer_lib \<Rightarrow> params \<Rightarrow> bridge \<Rightarrow> outcome" where
  "handleKeyState B ps s =
     (let deviceId = safeString (ps ''DEVICEID'')
      in if deviceId = [] then Returns s
         else (case map_of (devices s) deviceId of
                 None \<Rightarrow> Returns s
               | Some dev \<Rightarrow>
                   (let xy = keyAddress dev (ps ''KEY'');
                        st = keyStateOf B ps
                    in andThen (internalSurfaceDraw deviceId (fst xy) (snd xy) st s)
                         (\<lambda>t. Returns (broadcastToDeviceWindow deviceId
                                          (ScreendeckDraw (fst xy) (snd xy) st) t)))))"

definition verbOf :: "string \<Rightarrow> string" where
  "verbOf line =
     toUpperCase (case indexOf CHR '' '' line of None \<Rightarrow> line | Some i \<Rightarrow> take i line)"

definition bodyOf :: "string \<Rightarrow> string" where
  "bodyOf line = (case indexOf CHR '' '' line of None \<Rightarrow> [] | Some i \<Rightarrow> drop (i + 1) line)"

text \<open>
  \<^verbatim>\<open>handleLine\<close>, with the way it ends (\<open>handleLineOutcome\<close>), and the state it leaves
  the bridge in (\<open>handleLine\<close>).
\<close>

definition handleLineOutcome :: "buffer_lib \<Rightarrow> string \<Rightarrow> bridge \<Rightarrow> outcome" where
  "handleLineOutcome B line s =
     (let cmd = verbOf line;
          body = bodyOf line;
          ps = parseParams body
      in if cmd = ''PING'' then Returns (sendLine (''PONG '' @ body) s)
         else if cmd = ''PONG'' then Returns s
         else if cmd = ''BEGIN'' then Returns (handleBegin ps s)
         else if cmd = ''ADD-DEVICE'' then Returns (handleAddDevice ps s)
         else if cmd = ''KEYS-CLEAR'' then handleKeysClear ps s
         else if cmd = ''KEY-STATE'' then handleKeyState B ps s
         else Returns s)"

definition handleLine :: "buffer_lib \<Rightarrow> string \<Rightarrow> bridge \<Rightarrow> bridge" where
  "handleLine B line s = stateOf (handleLineOutcome B line s)"

section \<open>Frame splitter\<close>

text \<open>
  What each operation above leaves unchanged. The loop of \<^verbatim>\<open>handleData\<close> reads
  \<^verbatim>\<open>this.buffer\<close> again after every line, so that it ends rests on \<open>handleLine\<close>
  not touching the buffer.
\<close>

lemma forEach_throws:
  "forEach internalRegisterSurface ds s = (if ds = [] then Returns s else Throws s)"
  "forEach internalRemoveSurface is s = (if is = [] then Returns s else Throws s)"
  by (cases ds, simp_all add: andThen_def internalRegisterSurface_def)
     (cases "is", simp_all add: andThen_def internalRemoveSurface_def)

lemma emit_fields [simp]:
  "apiPort (emit es s) = apiPort s" "socket (emit es s) = socket s"
  "buffer (emit es s) = buffer s" "connected (emit es s) = connected s"
  "connecting (emit es s) = connecting s" "reconnectTimer (emit es s) = reconnectTimer s"
  "lastBegin (emit es s) = lastBegin s" "devices (emit es s) = devices s"
  "windows (emit es s) = windows s" "registeredDevices (emit es s) = registeredDevices s"
  "pendingDevices (emit es s) = pendingDevices s" "config (emit es s) = config s"
  "timers (emit es s) = timers s" "nextTimer (emit es s) = nextTimer s"
  "nextSocket (emit es s) = nextSocket s" "nextWindow (emit es s) = nextWindow s"
  "destroyedWindows (emit es s) = destroyedWindows s" "trace (emit es s) = trace s @ es"
  by (simp_all add: emit_def)

lemma sendLine_fields [simp]:
  "apiPort (sendLine l s) = apiPort s" "socket (sendLine l s) = socket s"
  "buffer (sendLine l s) = buffer s" "connected (sendLine l s) = connected s"
  "connecting (sendLine l s) = connecting s" "reconnectTimer (sendLine l s) = reconnectTimer s"
  "lastBegin (sendLine l s) = lastBegin s" "devices (sendLine l s) = devices s"
  "windows (sendLine l s) = windows s" "registeredDevices (sendLine l s) = registeredDevices s"
  "pendingDevices (sendLine l s) = pendingDevices s" "config (sendLine l s) = config s"
  "timers (sendLine l s) = timers s" "nextTimer (sendLine l s) = nextTimer s"
  "nextSocket (sendLine l s) = nextSocket s" "nextWindow (sendLine l s) = nextWindow s"
  "destroyedWindows (sendLine l s) = destroyedWindows s"
  by (simp_all add: sendLine_def split: option.splits)

lemma sendCommand_fields [simp]:
  "apiPort (sendCommand c a s) = apiPort s" "socket (sendCommand c a s) = socket s"
  "buffer (sendCommand c a s) = buffer s" "connected (sendCommand c a s) = connected s"
  "connecting (sendCommand c a s) = connecting s" "reconnectTimer (sendCommand c a s) = reconnectTimer s"
  "lastBegin (sendCommand c a s) = lastBegin s" "devices (sendCommand c a s) = devices s"
  "windows (sendCommand c a s) = windows s" "registeredDevices (sendCommand c a s) = registeredDevices s"
  "pendingDevices (sendCommand c a s) = pendingDevices s" "config (sendCommand c a s) = config s"
  "timers (sendCommand c a s) = timers s" "nextTimer (sendCommand c a s) = nextTimer s"
  "nextSocket (sendCommand c a s) = nextSocket s" "nextWindow (sendCommand c a s) = nextWindow s"
  "destroyedWindows (sendCommand c a s) = destroyedWindows s"
  by (simp_all add: sendCommand_def)

lemma broadcast_fields [simp]:
  "apiPort (broadcastToDeviceWindow i m s) = apiPort s" "socket (broadcastToDeviceWindow i m s) = socket s"
  "buffer (broadcastToDeviceWindow i m s) = buffer s" "connected (broadcastToDeviceWindow i m s) = connected s"
  "connecting (broadcastToDeviceWindow i m s) = connecting s" "reconnectTimer (broadcastToDeviceWindow i m s) = reconnectTimer s"
  "lastBegin (broadcastToDeviceWindow i m s) = lastBegin s" "devices (broadcastToDeviceWindow i m s) = devices s"
  "windows (broadcastToDeviceWindow i m s) = windows s" "registeredDevices (broadcastToDeviceWindow i m s) = registeredDevices s"
  "pendingDevices (broadcastToDeviceWindow i m s) = pendingDevices s" "config (broadcastToDeviceWindow i m s) = config s"
  "timers (broadcastToDeviceWindow i m s) = timers s" "nextTimer (broadcastToDeviceWindow i m s) = nextTimer s"
  "nextSocket (broadcastToDeviceWindow i m s) = nextSocket s" "nextWindow (broadcastToDeviceWindow i m s) = nextWindow s"
  "destroyedWindows (broadcastToDeviceWindow i m s) = destroyedWindows s"
  by (simp_all add: broadcastToDeviceWindow_def split: option.splits)

lemma addDevice_fields [simp]:
  "apiPort (addDeviceToCompanion d s) = apiPort s" "socket (addDeviceToCompanion d s) = socket s"
  "buffer (addDeviceToCompanion d s) = buffer s" "connected (addDeviceToCompanion d s) = connected s"
  "connecting (addDeviceToCompanion d s) = connecting s" "reconnectTimer (addDeviceToCompanion d s) = reconnectTimer s"
  "lastBegin (addDeviceToCompanion d s) = lastBegin s" "devices (addDeviceToCompanion d s) = devices s"
  "windows (addDeviceToCompanion d s) = windows s" "registeredDevices (addDeviceToCompanion d s) = registeredDevices s"
  "config (addDeviceToCompanion d s) = config s"
  "timers (addDeviceToCompanion d s) = timers s" "nextTimer (addDeviceToCompanion d s) = nextTimer s"
  "nextSocket (addDeviceToCompanion d s) = nextSocket s" "nextWindow (addDeviceToCompanion d s) = nextWindow s"
  "destroyedWindows (addDeviceToCompanion d s) = destroyedWindows s"
  by (simp_all add: addDeviceToCompanion_def)

lemma addAll_frame:
  "let t = foldl (\<lambda>t dev. addDeviceToCompanion dev t) s ds in
     apiPort t = apiPort s \<and> socket t = socket s \<and> buffer t = buffer s \<and> connected t = connected s \<and>
     connecting t = connecting s \<and> reconnectTimer t = reconnectTimer s \<and> lastBegin t = lastBegin s \<and>
     devices t = devices s \<and> windows t = windows s \<and> registeredDevices t = registeredDevices s \<and>
     config t = config s \<and> timers t = timers s \<and> nextTimer t = nextTimer s \<and>
     nextSocket t = nextSocket s \<and> nextWindow t = nextWindow s \<and> destroyedWindows t = destroyedWindows s"
  by (induction ds arbitrary: s) (simp_all add: Let_def)

lemma handleBegin_fields [simp]:
  "apiPort (handleBegin p s) = apiPort s" "socket (handleBegin p s) = socket s"
  "buffer (handleBegin p s) = buffer s" "connected (handleBegin p s) = connected s"
  "connecting (handleBegin p s) = False" "reconnectTimer (handleBegin p s) = reconnectTimer s"
  "lastBegin (handleBegin p s) = Some p" "devices (handleBegin p s) = devices s"
  "windows (handleBegin p s) = windows s" "registeredDevices (handleBegin p s) = registeredDevices s"
  "config (handleBegin p s) = config s"
  "timers (handleBegin p s) = timers s" "nextTimer (handleBegin p s) = nextTimer s"
  "nextSocket (handleBegin p s) = nextSocket s" "nextWindow (handleBegin p s) = nextWindow s"
  "destroyedWindows (handleBegin p s) = destroyedWindows s"
  using addAll_frame [of "s\<lparr>lastBegin := Some p, connecting := False\<rparr>" "map snd (devices s)"]
  by (simp_all add: handleBegin_def Let_def)

lemma handleAddDevice_fields [simp]:
  "apiPort (handleAddDevice p s) = apiPort s" "socket (handleAddDevice p s) = socket s"
  "buffer (handleAddDevice p s) = buffer s" "connected (handleAddDevice p s) = connected s"
  "connecting (handleAddDevice p s) = connecting s" "reconnectTimer (handleAddDevice p s) = reconnectTimer s"
  "lastBegin (handleAddDevice p s) = lastBegin s" "devices (handleAddDevice p s) = devices s"
  "windows (handleAddDevice p s) = windows s" 
  "config (handleAddDevice p s) = config s"
  "timers (handleAddDevice p s) = timers s" "nextTimer (handleAddDevice p s) = nextTimer s"
  "nextSocket (handleAddDevice p s) = nextSocket s" "nextWindow (handleAddDevice p s) = nextWindow s"
  "destroyedWindows (handleAddDevice p s) = destroyedWindows s" "trace (handleAddDevice p s) = trace s"
  by (simp_all add: handleAddDevice_def Let_def split: option.splits pval.splits)

lemma handleKeysClear_state [simp]: "stateOf (handleKeysClear p s) = s"
  by (simp add: handleKeysClear_def internalSurfaceClear_def andThen_def Let_def)

lemma handleKeyState_state [simp]: "stateOf (handleKeyState B p s) = s"
  by (simp add: handleKeyState_def internalSurfaceDraw_def andThen_def Let_def split: option.splits)

lemma handleLine_state [simp]: "stateOf (handleLineOutcome B l s) = handleLine B l s"
  by (simp add: handleLine_def)

lemma handleLine_fields [simp]:
  "apiPort (handleLine B l s) = apiPort s" "socket (handleLine B l s) = socket s"
  "buffer (handleLine B l s) = buffer s" "connected (handleLine B l s) = connected s"
  "reconnectTimer (handleLine B l s) = reconnectTimer s"
  "devices (handleLine B l s) = devices s"
  "windows (handleLine B l s) = windows s" 
  "config (handleLine B l s) = config s"
  "timers (handleLine B l s) = timers s" "nextTimer (handleLine B l s) = nextTimer s"
  "nextSocket (handleLine B l s) = nextSocket s" "nextWindow (handleLine B l s) = nextWindow s"
  "destroyedWindows (handleLine B l s) = destroyedWindows s"
  by (simp_all add: handleLine_def handleLineOutcome_def Let_def del: handleLine_state)

text \<open>
  The \<^verbatim>\<open>while\<close> loop of \<^verbatim>\<open>handleData\<close>. \<open>handleNextLine\<close> is its body, for a
  line feed found at \<open>idx\<close>: it cuts the text before the line feed off the buffer,
  strips one trailing carriage return, and handles the line if it is not empty. When
  \<^verbatim>\<open>handleLine\<close> raises, the loop is left: the line is off the buffer, and the lines
  behind it stay there.
\<close>

definition handleNextLine :: "buffer_lib \<Rightarrow> nat \<Rightarrow> bridge \<Rightarrow> outcome" where
  "handleNextLine B idx s =
     (let line0 = take idx (buffer s);
          s1 = s\<lparr>buffer := drop (idx + 1) (buffer s)\<rparr>;
          line = (if line0 \<noteq> [] \<and> last line0 = carriage_return then butlast line0 else line0)
      in if line \<noteq> [] then handleLineOutcome B line s1 else Returns s1)"

lemma handleNextLine_fields [simp]:
  "apiPort (stateOf (handleNextLine B i s)) = apiPort s"
  "socket (stateOf (handleNextLine B i s)) = socket s"
  "buffer (stateOf (handleNextLine B i s)) = drop (i + 1) (buffer s)"
  "connected (stateOf (handleNextLine B i s)) = connected s"
  "reconnectTimer (stateOf (handleNextLine B i s)) = reconnectTimer s"
  "devices (stateOf (handleNextLine B i s)) = devices s"
  "windows (stateOf (handleNextLine B i s)) = windows s"
  "config (stateOf (handleNextLine B i s)) = config s"
  "timers (stateOf (handleNextLine B i s)) = timers s"
  "nextTimer (stateOf (handleNextLine B i s)) = nextTimer s"
  "nextSocket (stateOf (handleNextLine B i s)) = nextSocket s"
  "nextWindow (stateOf (handleNextLine B i s)) = nextWindow s"
  "destroyedWindows (stateOf (handleNextLine B i s)) = destroyedWindows s"
  by (simp_all add: handleNextLine_def Let_def)

lemma handleNextLine_buffer:
  "handleNextLine B i s = Returns t \<Longrightarrow> buffer t = drop (i + 1) (buffer s)"
  using handleNextLine_fields(3) [of B i s] by simp

function drainBuffer :: "buffer_lib \<Rightarrow> bridge \<Rightarrow> outcome" where
  "drainBuffer B s =
     (case indexOf newline (buffer s) of
        None \<Rightarrow> Returns s
      | Some idx \<Rightarrow>
          (case handleNextLine B idx s of
             Returns t \<Rightarrow> drainBuffer B t
           | Throws t \<Rightarrow> Throws t))"
  by pat_completeness auto
termination
  by (relation "measure (\<lambda>p. length (buffer (snd p)))")
     (auto simp: indexOf_def dest!: handleNextLine_buffer dest: length_pos_if_in_set split: if_splits)

declare drainBuffer.simps [simp del]

definition handleData :: "buffer_lib \<Rightarrow> string \<Rightarrow> bridge \<Rightarrow> outcome" where
  "handleData B chunk s = drainBuffer B (s\<lparr>buffer := buffer s @ chunk\<rparr>)"

section \<open>Events\<close>

text \<open>
  Everything that makes the bridge run: the calls of its public methods, the events
  of its sockets and windows, and the reconnect timer. \<open>Init\<close> carries the stored
  configuration at the time of the call; \<open>ConfigChanged\<close> is the callback registered
  with \<^verbatim>\<open>config.onDidChange\<close>. A timer fires only while it is outstanding.

  Both \<^verbatim>\<open>init\<close> and the callback call \<^verbatim>\<open>reloadFromConfig\<close> and then
  \<^verbatim>\<open>reconnect\<close>; when the first raises, the second is not reached. An exception
  ends the event in which it is raised: \<open>step\<close> gives the state the bridge is left in.
  What the rest of the process does with an exception that leaves a handler is not
  part of this state.
\<close>

datatype event =
    Init "int option" sd_config
  | ConfigChanged sd_config
  | Reconnect
  | Disconnect
  | KeyPress string string string bool
  | OpenWindow string
  | OpenAllWindows
  | WindowClosed string
  | WindowDestroyed nat
  | SocketConnected
  | SocketData string
  | SocketError
  | SocketClosed
  | TimerFired nat

fun step :: "buffer_lib \<Rightarrow> event \<Rightarrow> bridge \<Rightarrow> bridge" where
  "step B (Init port cfg) s =
     stateOf (andThen (reloadFromConfig (s\<lparr>apiPort := port, config := cfg\<rparr>))
                (\<lambda>t. Returns (reconnect t)))"
| "step B (ConfigChanged cfg) s =
     stateOf (andThen (reloadFromConfig (s\<lparr>config := cfg\<rparr>)) (\<lambda>t. Returns (reconnect t)))"
| "step B Reconnect s = reconnect s"
| "step B Disconnect s = disconnect s"
| "step B (KeyPress deviceId x y pressed) s = stateOf (keyPress deviceId x y pressed s)"
| "step B (OpenWindow deviceId) s = openWindow deviceId s"
| "step B OpenAllWindows s = openAllWindows s"
| "step B (WindowClosed deviceId) s = onWindowClosed deviceId s"
| "step B (WindowDestroyed w) s = s\<lparr>destroyedWindows := insert w (destroyedWindows s)\<rparr>"
| "step B SocketConnected s = onSocketConnect s"
| "step B (SocketData chunk) s = stateOf (handleData B chunk s)"
| "step B SocketError s = onSocketError s"
| "step B SocketClosed s = onSocketClose s"
| "step B (TimerFired t) s =
     (if t \<in> fst ` set (timers s)
      then reconnectTimerCallback (s\<lparr>timers := filter (\<lambda>e. fst e \<noteq> t) (timers s)\<rparr>)
      else s)"

text \<open>The state after a sequence of events, from the constructor's state.\<close>

definition run :: "buffer_lib \<Rightarrow> event list \<Rightarrow> bridge" where
  "run B es = foldl (\<lambda>s e. step B e s) initial es"

section \<open>What the operations of the state machine leave unchanged\<close>

lemma disconnect_fields [simp]:
  "apiPort (disconnect s) = apiPort s" "devices (disconnect s) = devices s"
  "windows (disconnect s) = windows s" "config (disconnect s) = config s"
  "nextTimer (disconnect s) = nextTimer s" "nextSocket (disconnect s) = nextSocket s"
  "nextWindow (disconnect s) = nextWindow s" "destroyedWindows (disconnect s) = destroyedWindows s"
  "connected (disconnect s) = False" "connecting (disconnect s) = False"
  "lastBegin (disconnect s) = None" "registeredDevices (disconnect s) = {}"
  "pendingDevices (disconnect s) = {}" "buffer (disconnect s) = []"
  "socket (disconnect s) = None" "reconnectTimer (disconnect s) = None"
  by (simp_all add: disconnect_def Let_def split: option.splits)

lemma connect_fields [simp]:
  "apiPort (connect h p s) = apiPort s" "devices (connect h p s) = devices s"
  "windows (connect h p s) = windows s" "config (connect h p s) = config s"
  "nextTimer (connect h p s) = nextTimer s" 
  "nextWindow (connect h p s) = nextWindow s" "destroyedWindows (connect h p s) = destroyedWindows s"
  "connected (connect h p s) = False" "connecting (connect h p s) = True"
  "lastBegin (connect h p s) = None" "registeredDevices (connect h p s) = {}"
  "pendingDevices (connect h p s) = {}" "buffer (connect h p s) = []"
  "socket (connect h p s) = Some (nextSocket s)" "reconnectTimer (connect h p s) = None"
  "timers (connect h p s) = timers (disconnect s)"
  by (simp_all add: connect_def Let_def)

lemma reconnect_fields [simp]:
  "apiPort (reconnect s) = apiPort s" "devices (reconnect s) = devices s"
  "windows (reconnect s) = windows s" "config (reconnect s) = config s"
  "nextTimer (reconnect s) = nextTimer s" 
  "nextWindow (reconnect s) = nextWindow s" "destroyedWindows (reconnect s) = destroyedWindows s"
  "connected (reconnect s) = False" 
  "lastBegin (reconnect s) = None" "registeredDevices (reconnect s) = {}"
  "pendingDevices (reconnect s) = {}" "buffer (reconnect s) = []"
  "reconnectTimer (reconnect s) = None"
  "timers (reconnect s) = timers (disconnect s)"
  by (simp_all add: reconnect_def Let_def)

lemma scheduleReconnect_fields [simp]:
  "apiPort (scheduleReconnect s) = apiPort s" "socket (scheduleReconnect s) = socket s"
  "buffer (scheduleReconnect s) = buffer s" "connected (scheduleReconnect s) = connected s"
  "connecting (scheduleReconnect s) = connecting s"
  "lastBegin (scheduleReconnect s) = lastBegin s" "devices (scheduleReconnect s) = devices s"
  "windows (scheduleReconnect s) = windows s" "registeredDevices (scheduleReconnect s) = registeredDevices s"
  "pendingDevices (scheduleReconnect s) = pendingDevices s" "config (scheduleReconnect s) = config s"
  "nextSocket (scheduleReconnect s) = nextSocket s" "nextWindow (scheduleReconnect s) = nextWindow s"
  "destroyedWindows (scheduleReconnect s) = destroyedWindows s" "trace (scheduleReconnect s) = trace s"
  by (simp_all add: scheduleReconnect_def)

lemma keyPress_fields [simp]:
  "apiPort (stateOf (keyPress i x y p s)) = apiPort s"
  "socket (stateOf (keyPress i x y p s)) = socket s"
  "buffer (stateOf (keyPress i x y p s)) = buffer s"
  "connected (stateOf (keyPress i x y p s)) = connected s"
  "connecting (stateOf (keyPress i x y p s)) = connecting s"
  "reconnectTimer (stateOf (keyPress i x y p s)) = reconnectTimer s"
  "lastBegin (stateOf (keyPress i x y p s)) = lastBegin s"
  "devices (stateOf (keyPress i x y p s)) = devices s"
  "windows (stateOf (keyPress i x y p s)) = windows s"
  "registeredDevices (stateOf (keyPress i x y p s)) = registeredDevices s"
  "pendingDevices (stateOf (keyPress i x y p s)) = pendingDevices s"
  "config (stateOf (keyPress i x y p s)) = config s"
  "timers (stateOf (keyPress i x y p s)) = timers s"
  "nextTimer (stateOf (keyPress i x y p s)) = nextTimer s"
  "nextSocket (stateOf (keyPress i x y p s)) = nextSocket s"
  "nextWindow (stateOf (keyPress i x y p s)) = nextWindow s"
  "destroyedWindows (stateOf (keyPress i x y p s)) = destroyedWindows s"
  by (simp_all add: keyPress_def internalSurfaceKey_def Let_def split: option.splits)

lemma openWindow_fields [simp]:
  "apiPort (openWindow i s) = apiPort s" "socket (openWindow i s) = socket s"
  "buffer (openWindow i s) = buffer s" "connected (openWindow i s) = connected s"
  "connecting (openWindow i s) = connecting s" "reconnectTimer (openWindow i s) = reconnectTimer s"
  "lastBegin (openWindow i s) = lastBegin s" "devices (openWindow i s) = devices s"
  "registeredDevices (openWindow i s) = registeredDevices s"
  "pendingDevices (openWindow i s) = pendingDevices s" "config (openWindow i s) = config s"
  "timers (openWindow i s) = timers s" "nextTimer (openWindow i s) = nextTimer s"
  "nextSocket (openWindow i s) = nextSocket s" 
  "destroyedWindows (openWindow i s) = destroyedWindows s"
  by (simp_all add: openWindow_def Let_def split: option.splits)

lemma openMany_frame:
  "let t = foldl (\<lambda>t dev. openWindow (id_dev dev) t) s ds in
     apiPort t = apiPort s \<and> socket t = socket s \<and> buffer t = buffer s \<and> connected t = connected s \<and>
     connecting t = connecting s \<and> reconnectTimer t = reconnectTimer s \<and> lastBegin t = lastBegin s \<and>
     devices t = devices s \<and> registeredDevices t = registeredDevices s \<and>
     pendingDevices t = pendingDevices s \<and>
     config t = config s \<and> timers t = timers s \<and> nextTimer t = nextTimer s \<and>
     nextSocket t = nextSocket s \<and> destroyedWindows t = destroyedWindows s"
  by (induction ds arbitrary: s) (simp_all add: Let_def)

lemma openAllWindows_fields [simp]:
  "apiPort (openAllWindows s) = apiPort s" "socket (openAllWindows s) = socket s"
  "buffer (openAllWindows s) = buffer s" "connected (openAllWindows s) = connected s"
  "connecting (openAllWindows s) = connecting s" "reconnectTimer (openAllWindows s) = reconnectTimer s"
  "lastBegin (openAllWindows s) = lastBegin s" "devices (openAllWindows s) = devices s"
  "registeredDevices (openAllWindows s) = registeredDevices s"
  "pendingDevices (openAllWindows s) = pendingDevices s" "config (openAllWindows s) = config s"
  "timers (openAllWindows s) = timers s" "nextTimer (openAllWindows s) = nextTimer s"
  "nextSocket (openAllWindows s) = nextSocket s" 
  "destroyedWindows (openAllWindows s) = destroyedWindows s"
  using openMany_frame [of s "map snd (devices s)"]
  by (simp_all add: openAllWindows_def Let_def)

text \<open>
  \<^verbatim>\<open>reloadFromConfig\<close> returns only when it finds no device, before and after; then
  it closes every window. In any other case it raises with the device table rebuilt
  and nothing else changed.
\<close>

lemma reloadFromConfig_cases:
  "reloadFromConfig s =
     (if foldl loadDevice [] (cfg_devices (config s)) = [] \<and> devices s = []
      then Returns (s\<lparr>devices := [], windows := [],
                      trace := trace s @ map (\<lambda>e. WindowClose (snd e)) (windows s)\<rparr>)
      else Throws (s\<lparr>devices := foldl loadDevice [] (cfg_devices (config s))\<rparr>))"
  by (simp add: reloadFromConfig_def Let_def forEach_throws andThen_def emit_def)

lemma reloadFromConfig_fields [simp]:
  "apiPort (stateOf (reloadFromConfig s)) = apiPort s"
  "socket (stateOf (reloadFromConfig s)) = socket s"
  "buffer (stateOf (reloadFromConfig s)) = buffer s"
  "connected (stateOf (reloadFromConfig s)) = connected s"
  "connecting (stateOf (reloadFromConfig s)) = connecting s"
  "reconnectTimer (stateOf (reloadFromConfig s)) = reconnectTimer s"
  "lastBegin (stateOf (reloadFromConfig s)) = lastBegin s"
  "registeredDevices (stateOf (reloadFromConfig s)) = registeredDevices s"
  "pendingDevices (stateOf (reloadFromConfig s)) = pendingDevices s"
  "config (stateOf (reloadFromConfig s)) = config s"
  "timers (stateOf (reloadFromConfig s)) = timers s"
  "nextTimer (stateOf (reloadFromConfig s)) = nextTimer s"
  "nextSocket (stateOf (reloadFromConfig s)) = nextSocket s"
  "nextWindow (stateOf (reloadFromConfig s)) = nextWindow s"
  "destroyedWindows (stateOf (reloadFromConfig s)) = destroyedWindows s"
  "devices (stateOf (reloadFromConfig s)) = foldl loadDevice [] (cfg_devices (config s))"
  by (simp_all add: reloadFromConfig_cases)


lemma drainBuffer_frame:
  "apiPort (stateOf (drainBuffer B s)) = apiPort s \<and> socket (stateOf (drainBuffer B s)) = socket s
   \<and> connected (stateOf (drainBuffer B s)) = connected s
   \<and> reconnectTimer (stateOf (drainBuffer B s)) = reconnectTimer s
   \<and> devices (stateOf (drainBuffer B s)) = devices s
   \<and> windows (stateOf (drainBuffer B s)) = windows s \<and> config (stateOf (drainBuffer B s)) = config s
   \<and> timers (stateOf (drainBuffer B s)) = timers s \<and> nextTimer (stateOf (drainBuffer B s)) = nextTimer s
   \<and> nextSocket (stateOf (drainBuffer B s)) = nextSocket s
   \<and> nextWindow (stateOf (drainBuffer B s)) = nextWindow s
   \<and> destroyedWindows (stateOf (drainBuffer B s)) = destroyedWindows s"
proof (induction B s rule: drainBuffer.induct)
  case (1 B s)
  show ?case
  proof (cases "indexOf newline (buffer s)")
    case None
    then show ?thesis by (simp add: drainBuffer.simps [of B s])
  next
    case (Some idx)
    show ?thesis
    proof (cases "handleNextLine B idx s")
      case (Returns t)
      then have e: "drainBuffer B s = drainBuffer B t"
        using Some by (simp add: drainBuffer.simps [of B s])
      note f = handleNextLine_fields [of B idx s, unfolded Returns stateOf.simps]
      show ?thesis using "1.IH" [OF Some Returns] by (simp add: e f)
    next
      case (Throws t)
      then have e: "drainBuffer B s = Throws t"
        using Some by (simp add: drainBuffer.simps [of B s])
      note f = handleNextLine_fields [of B idx s, unfolded Throws stateOf.simps]
      show ?thesis by (simp add: e f)
    qed
  qed
qed

lemma handleData_fields [simp]:
  "apiPort (stateOf (handleData B c s)) = apiPort s" "socket (stateOf (handleData B c s)) = socket s"
  "connected (stateOf (handleData B c s)) = connected s"
  "reconnectTimer (stateOf (handleData B c s)) = reconnectTimer s"
  "devices (stateOf (handleData B c s)) = devices s"
  "windows (stateOf (handleData B c s)) = windows s" "config (stateOf (handleData B c s)) = config s"
  "timers (stateOf (handleData B c s)) = timers s" "nextTimer (stateOf (handleData B c s)) = nextTimer s"
  "nextSocket (stateOf (handleData B c s)) = nextSocket s"
  "nextWindow (stateOf (handleData B c s)) = nextWindow s"
  "destroyedWindows (stateOf (handleData B c s)) = destroyedWindows s"
  using drainBuffer_frame [of B "s\<lparr>buffer := buffer s @ c\<rparr>"]
  by (simp_all add: handleData_def)

lemma run_Nil [simp]: "run B [] = initial"
  by (simp add: run_def)

lemma run_snoc [simp]: "run B (es @ [e]) = step B e (run B es)"
  by (simp add: run_def)

section \<open>Properties of the command codec\<close>

lemma scan_flush:
  "scanTokens tokens cur inQuotes line
   = (case scanState tokens cur inQuotes line of (ts, c, q) \<Rightarrow> if c \<noteq> [] then ts @ [c] else ts)"
  by (induction tokens cur inQuotes line rule: scanTokens.induct)
     (auto simp: dquote_def backslash_def split: list.splits)

lemma scanState_quoted_tail:
  "dquote \<notin> set tail \<Longrightarrow> backslash \<notin> set tail \<Longrightarrow>
   scanState tokens cur True tail = (tokens, cur @ tail, True)"
  by (induction tail arbitrary: cur) auto

lemma scan_quoted_tail:
  "dquote \<notin> set tail \<Longrightarrow> backslash \<notin> set tail \<Longrightarrow>
   scanTokens tokens cur True tail = tokens @ (if cur @ tail = [] then [] else [cur @ tail])"
  by (induction tail arbitrary: cur) auto

lemma scan_closing_quote:
  "backslash \<notin> set z \<Longrightarrow> scanTokens tokens cur inQuotes (z @ [dquote]) = scanTokens tokens cur inQuotes z"
  by (induction z arbitrary: tokens cur inQuotes) (auto simp: dquote_def backslash_def)

text \<open>
  Claim C7. The body tokenizer turns \<^verbatim>\<open>A B="x y" C\<close> into the three tokens
  \<^verbatim>\<open>A\<close>, \<^verbatim>\<open>B=x y\<close>, \<^verbatim>\<open>C\<close>, and the parameter object is then
  \<^verbatim>\<open>{A: true, B: "x y", C: true}\<close>. For every input and from every loop state, the
  result is the tokens collected by the loop followed by the token being accumulated
  when the input ends, if that token is not empty, whether or not a quote is open
  then; so every input that ends inside a quote that was opened and never closed has
  its last token flushed, also when it ends in a backslash. Inside an open quote a
  tail without quote and backslash is appended to the current token, spaces included,
  and the quote stays open; a line without backslash gives the same tokens whether or
  not a quote is appended at its end. A backslash before a double quote appends a
  literal double quote to the current token and leaves the quote mode as it is, inside
  and outside quotes.
\<close>

theorem tokenizer_properties:
  "splitTokensPreservingQuotes (''A B='' @ [dquote] @ ''x y'' @ [dquote] @ '' C'') = [''A'', ''B=x y'', ''C'']
   \<and> parseParams (''A B='' @ [dquote] @ ''x y'' @ [dquote] @ '' C'')
       = [''A'' \<mapsto> PTrue, ''B'' \<mapsto> PStr ''x y'', ''C'' \<mapsto> PTrue]
   \<and> (\<forall>tokens cur inQuotes line.
         scanTokens tokens cur inQuotes line
         = (case scanState tokens cur inQuotes line of
              (ts, c, q) \<Rightarrow> if c \<noteq> [] then ts @ [c] else ts))
   \<and> (\<forall>line ts c. scanState [] [] False line = (ts, c, True) \<longrightarrow>
         splitTokensPreservingQuotes line = (if c \<noteq> [] then ts @ [c] else ts))
   \<and> (\<forall>tokens cur inQuotes.
         scanTokens tokens cur inQuotes [backslash] = (if cur \<noteq> [] then tokens @ [cur] else tokens))
   \<and> (\<forall>tokens cur tail. dquote \<notin> set tail \<and> backslash \<notin> set tail \<longrightarrow>
         scanState tokens cur False (dquote # tail) = (tokens, cur @ tail, True)
         \<and> scanTokens tokens cur False (dquote # tail)
           = tokens @ (if cur @ tail = [] then [] else [cur @ tail]))
   \<and> (\<forall>line. backslash \<notin> set line \<longrightarrow>
         splitTokensPreservingQuotes line = splitTokensPreservingQuotes (line @ [dquote]))
   \<and> splitTokensPreservingQuotes (''A B='' @ [dquote] @ ''x y'') = [''A'', ''B=x y'']
   \<and> splitTokensPreservingQuotes (''A '' @ [dquote] @ ''B'' @ [backslash]) = [''A'', ''B'']
   \<and> (\<forall>tokens cur inQuotes rest.
         scanTokens tokens cur inQuotes (backslash # dquote # rest)
         = scanTokens tokens (cur @ [dquote]) inQuotes rest)
   \<and> (\<forall>tokens cur inQuotes rest.
         scanState tokens cur inQuotes (backslash # dquote # rest)
         = scanState tokens (cur @ [dquote]) inQuotes rest)
   \<and> splitTokensPreservingQuotes (''B='' @ [dquote] @ ''x '' @ [backslash, dquote] @ ''y'' @ [backslash, dquote, dquote])
       = [''B=x '' @ [dquote] @ ''y'' @ [dquote]]"
proof (intro conjI allI impI)
  show "splitTokensPreservingQuotes (''A B='' @ [dquote] @ ''x y'' @ [dquote] @ '' C'') = [''A'', ''B=x y'', ''C'']"
    by (simp add: splitTokensPreservingQuotes_def dquote_def backslash_def)
  show "parseParams (''A B='' @ [dquote] @ ''x y'' @ [dquote] @ '' C'')
       = [''A'' \<mapsto> PTrue, ''B'' \<mapsto> PStr ''x y'', ''C'' \<mapsto> PTrue]"
    by (simp add: parseParams_def parseToken_def setProp_def indexOf_def
        splitTokensPreservingQuotes_def dquote_def backslash_def)
  show "splitTokensPreservingQuotes (''A B='' @ [dquote] @ ''x y'') = [''A'', ''B=x y'']"
    by (simp add: splitTokensPreservingQuotes_def dquote_def backslash_def)
  show "splitTokensPreservingQuotes (''A '' @ [dquote] @ ''B'' @ [backslash]) = [''A'', ''B'']"
    by (simp add: splitTokensPreservingQuotes_def dquote_def backslash_def)
  show "splitTokensPreservingQuotes (''B='' @ [dquote] @ ''x '' @ [backslash, dquote] @ ''y'' @ [backslash, dquote, dquote])
       = [''B=x '' @ [dquote] @ ''y'' @ [dquote]]"
    by (simp add: splitTokensPreservingQuotes_def dquote_def backslash_def)
next
  fix tokens cur inQuotes line
  show "scanTokens tokens cur inQuotes line
         = (case scanState tokens cur inQuotes line of
              (ts, c, q) \<Rightarrow> if c \<noteq> [] then ts @ [c] else ts)"
    by (rule scan_flush)
next
  fix line ts c
  assume "scanState [] [] False line = (ts, c, True)"
  then show "splitTokensPreservingQuotes line = (if c \<noteq> [] then ts @ [c] else ts)"
    by (simp add: splitTokensPreservingQuotes_def scan_flush [of "[]" "[]" False line])
next
  fix tokens cur inQuotes
  show "scanTokens tokens cur inQuotes [backslash] = (if cur \<noteq> [] then tokens @ [cur] else tokens)"
    by simp
next
  fix tokens cur tail
  assume "dquote \<notin> set tail \<and> backslash \<notin> set tail"
  then show "scanState tokens cur False (dquote # tail) = (tokens, cur @ tail, True)"
    using scanState_quoted_tail [of tail tokens cur] by (simp add: dquote_def backslash_def)
next
  fix tokens cur tail
  assume "dquote \<notin> set tail \<and> backslash \<notin> set tail"
  then show "scanTokens tokens cur False (dquote # tail)
         = tokens @ (if cur @ tail = [] then [] else [cur @ tail])"
    using scan_quoted_tail [of tail tokens cur] by (simp add: dquote_def backslash_def)
next
  fix line assume "backslash \<notin> set line"
  then show "splitTokensPreservingQuotes line = splitTokensPreservingQuotes (line @ [dquote])"
    by (simp add: splitTokensPreservingQuotes_def scan_closing_quote)
next
  fix tokens cur inQuotes rest
  show "scanTokens tokens cur inQuotes (backslash # dquote # rest)
         = scanTokens tokens (cur @ [dquote]) inQuotes rest"
    by simp
next
  fix tokens cur inQuotes rest
  show "scanState tokens cur inQuotes (backslash # dquote # rest)
         = scanState tokens (cur @ [dquote]) inQuotes rest"
    by simp
qed

theorem tokenizer_properties_witness:
  "scanState [] [] False (''A '' @ [dquote] @ ''B'' @ [backslash]) = ([''A''], ''B'', True)
   \<and> splitTokensPreservingQuotes (''A '' @ [dquote] @ ''B'' @ [backslash]) = [''A'', ''B'']
   \<and> dquote \<notin> set ''x y'' \<and> backslash \<notin> set ''x y''
   \<and> scanState [''A''] ''B='' False (dquote # ''x y'') = ([''A''], ''B=x y'', True)
   \<and> scanTokens [''A''] ''B='' False (dquote # ''x y'') = [''A'', ''B=x y'']
   \<and> backslash \<notin> set ''A B=x''
   \<and> splitTokensPreservingQuotes ''A B=x'' = splitTokensPreservingQuotes (''A B=x'' @ [dquote])"
proof -
  have s: "scanState [] [] False (''A '' @ [dquote] @ ''B'' @ [backslash]) = ([''A''], ''B'', True)"
    by (simp add: dquote_def backslash_def)
  have a: "dquote \<notin> set ''x y'' \<and> backslash \<notin> set ''x y''"
    by (simp add: dquote_def backslash_def)
  have b: "backslash \<notin> set ''A B=x''"
    by (simp add: backslash_def)
  from tokenizer_properties
  have "\<forall>line ts c. scanState [] [] False line = (ts, c, True) \<longrightarrow>
         splitTokensPreservingQuotes line = (if c \<noteq> [] then ts @ [c] else ts)"
    by (elim conjE)
  then have f: "splitTokensPreservingQuotes (''A '' @ [dquote] @ ''B'' @ [backslash])
        = (if ''B'' \<noteq> [] then [''A''] @ [''B''] else [''A''])"
    using s by blast
  from tokenizer_properties
  have "\<forall>tokens cur tail. dquote \<notin> set tail \<and> backslash \<notin> set tail \<longrightarrow>
         scanState tokens cur False (dquote # tail) = (tokens, cur @ tail, True)
         \<and> scanTokens tokens cur False (dquote # tail)
           = tokens @ (if cur @ tail = [] then [] else [cur @ tail])"
    by (elim conjE)
  then have q: "scanState [''A''] ''B='' False (dquote # ''x y'') = ([''A''], ''B='' @ ''x y'', True)
      \<and> scanTokens [''A''] ''B='' False (dquote # ''x y'')
        = [''A''] @ (if ''B='' @ ''x y'' = [] then [] else [''B='' @ ''x y''])"
    using a by blast
  from tokenizer_properties
  have "\<forall>line. backslash \<notin> set line \<longrightarrow>
         splitTokensPreservingQuotes line = splitTokensPreservingQuotes (line @ [dquote])"
    by (elim conjE)
  then have c: "splitTokensPreservingQuotes ''A B=x'' = splitTokensPreservingQuotes (''A B=x'' @ [dquote])"
    using b by blast
  have f': "splitTokensPreservingQuotes (''A '' @ [dquote] @ ''B'' @ [backslash]) = [''A'', ''B'']"
    using f by simp
  have q1: "scanState [''A''] ''B='' False (dquote # ''x y'') = ([''A''], ''B=x y'', True)"
    using q by simp
  have q2: "scanTokens [''A''] ''B='' False (dquote # ''x y'') = [''A'', ''B=x y'']"
    using q by simp
  show ?thesis
    using s f' a q1 q2 b c by - (intro conjI; (elim conjE)?; assumption)
qed

section \<open>Properties of the key addressing\<close>

lemma clampInt_range:
  "mn \<le> mx \<Longrightarrow> mn \<le> fb \<Longrightarrow> fb \<le> mx \<Longrightarrow>
   mn \<le> clampInt v mn mx fb \<and> clampInt v mn mx fb \<le> mx"
  by (auto simp: clampInt_def split: jsnum.splits)

lemma flat_bounds:
  fixes c r k :: int
  assumes "1 \<le> c" "1 \<le> r" "0 \<le> k" "k \<le> c * r - 1"
  shows "0 \<le> k mod c \<and> k mod c \<le> c - 1 \<and> 0 \<le> k div c \<and> k div c \<le> r - 1"
proof -
  have "k div c < r"
  proof (rule ccontr)
    assume "\<not> k div c < r"
    then have "r \<le> k div c" by simp
    then have "c * r \<le> c * (k div c)" using assms(1) by (simp add: mult_left_mono)
    moreover have "c * (k div c) + k mod c = k" by simp
    moreover have "0 \<le> k mod c" using assms(1) by simp
    ultimately show False using assms(4) by linarith
  qed
  moreover have "0 \<le> k div c" using assms by (simp add: pos_imp_zdiv_nonneg_iff)
  moreover have "0 \<le> k mod c" "k mod c < c" using assms by simp_all
  ultimately show ?thesis by simp
qed

lemma grid_size_pos:
  fixes c r :: int
  shows "1 \<le> c \<Longrightarrow> 1 \<le> r \<Longrightarrow> 0 \<le> c * r - 1"
  using mult_mono [of 1 c 1 r] by simp

lemma flat_address_bounds:
  assumes "1 \<le> columns dev" "1 \<le> rows dev"
  shows "0 \<le> clampInt v 0 (columns dev * rows dev - 1) 0 mod columns dev
         \<and> clampInt v 0 (columns dev * rows dev - 1) 0 mod columns dev \<le> columns dev - 1
         \<and> 0 \<le> clampInt v 0 (columns dev * rows dev - 1) 0 div columns dev
         \<and> clampInt v 0 (columns dev * rows dev - 1) 0 div columns dev \<le> rows dev - 1"
proof -
  have "0 \<le> clampInt v 0 (columns dev * rows dev - 1) 0
        \<and> clampInt v 0 (columns dev * rows dev - 1) 0 \<le> columns dev * rows dev - 1"
    using grid_size_pos [OF assms] by (intro clampInt_range) simp_all
  then show ?thesis
    using flat_bounds [OF assms, of "clampInt v 0 (columns dev * rows dev - 1) 0"] by simp
qed

lemma keyAddress_bounds:
  assumes "1 \<le> columns dev" "1 \<le> rows dev"
  shows "0 \<le> fst (keyAddress dev key) \<and> fst (keyAddress dev key) \<le> columns dev - 1
         \<and> 0 \<le> snd (keyAddress dev key) \<and> snd (keyAddress dev key) \<le> rows dev - 1"
proof -
  have rc: "\<And>a b. 0 \<le> clampInt a 0 (columns dev - 1) 0 \<and> clampInt a 0 (columns dev - 1) 0 \<le> columns dev - 1
      \<and> 0 \<le> clampInt b 0 (rows dev - 1) 0 \<and> clampInt b 0 (rows dev - 1) 0 \<le> rows dev - 1"
    using assms clampInt_range [of 0 "columns dev - 1" 0] clampInt_range [of 0 "rows dev - 1" 0]
    by simp
  show ?thesis
    using flat_address_bounds [OF assms] rc
    by (simp add: keyAddress_def Let_def split: option.splits pval.splits)
qed

lemma splitOn_no_sep: "sep \<notin> set s \<Longrightarrow> splitOn sep s = [s]"
  by (induction s) auto

lemma splitOn_first: "sep \<notin> set a \<Longrightarrow> splitOn sep (a @ sep # b) = a # splitOn sep b"
  by (induction a) auto

lemma parse19: "parseInt10 ''19'' = Num 19"
  by (simp add: parseInt10_def isWhiteSpace_def isDigit_def digitVal_def digitsValue_def doubleOverflow_def Let_def)
lemma parse2: "parseInt10 ''2'' = Num 2"
  by (simp add: parseInt10_def isWhiteSpace_def isDigit_def digitVal_def digitsValue_def doubleOverflow_def Let_def)
lemma parse3: "parseInt10 ''3'' = Num 3"
  by (simp add: parseInt10_def isWhiteSpace_def isDigit_def digitVal_def digitsValue_def doubleOverflow_def Let_def)

text \<open>
  Claim C8. For a device with at least one column and one row: a flat index is clamped
  into \<open>[0, columns * rows - 1]\<close> and decoded as \<open>x = index mod columns\<close>,
  \<open>y = index div columns\<close>; the form \<^verbatim>\<open>row/col\<close> is split at the slash, the row clamped
  into \<open>[0, rows - 1]\<close> and the column into \<open>[0, columns - 1]\<close>; with 8 columns (and at
  least 3 rows, so that neither input is out of range) index 19 and the string
  \<^verbatim>\<open>2/3\<close> both decode to \<open>(x, y) = (3, 2)\<close>; and whatever the \<^verbatim>\<open>KEY\<close> parameter
  is, the decoded pair lies within the bounds of the device.
\<close>

theorem key_addressing:
  assumes "1 \<le> columns dev" and "1 \<le> rows dev"
  shows "(\<forall>k n. CHR ''/'' \<notin> set k \<and> parseInt10 k = Num n \<longrightarrow>
            keyAddress dev (Some (PStr k))
            = (max 0 (min (columns dev * rows dev - 1) n) mod columns dev,
               max 0 (min (columns dev * rows dev - 1) n) div columns dev))
       \<and> (\<forall>rowStr colStr r c.
            CHR ''/'' \<notin> set rowStr \<and> CHR ''/'' \<notin> set colStr
            \<and> parseInt10 rowStr = Num r \<and> parseInt10 colStr = Num c \<longrightarrow>
            keyAddress dev (Some (PStr (rowStr @ ''/'' @ colStr)))
            = (max 0 (min (columns dev - 1) c), max 0 (min (rows dev - 1) r)))
       \<and> (columns dev = 8 \<and> 3 \<le> rows dev \<longrightarrow>
            keyAddress dev (Some (PStr ''19'')) = (3, 2)
            \<and> keyAddress dev (Some (PStr ''2/3'')) = (3, 2))
       \<and> (\<forall>key. 0 \<le> fst (keyAddress dev key) \<and> fst (keyAddress dev key) \<le> columns dev - 1
                \<and> 0 \<le> snd (keyAddress dev key) \<and> snd (keyAddress dev key) \<le> rows dev - 1)"
proof (intro conjI allI impI)
  fix k n assume "CHR ''/'' \<notin> set k \<and> parseInt10 k = Num n"
  then show "keyAddress dev (Some (PStr k))
            = (max 0 (min (columns dev * rows dev - 1) n) mod columns dev,
               max 0 (min (columns dev * rows dev - 1) n) div columns dev)"
    by (simp add: keyAddress_def clampInt_def Let_def)
next
  fix rowStr colStr r c
  assume h: "CHR ''/'' \<notin> set rowStr \<and> CHR ''/'' \<notin> set colStr
            \<and> parseInt10 rowStr = Num r \<and> parseInt10 colStr = Num c"
  then have "splitOn CHR ''/'' (rowStr @ ''/'' @ colStr) = [rowStr, colStr]"
    using splitOn_first [of "CHR ''/''" rowStr colStr] splitOn_no_sep [of "CHR ''/''" colStr]
    by simp
  then show "keyAddress dev (Some (PStr (rowStr @ ''/'' @ colStr)))
            = (max 0 (min (columns dev - 1) c), max 0 (min (rows dev - 1) r))"
    using h by (simp add: keyAddress_def clampInt_def elemString_def Let_def)
next
  assume "columns dev = 8 \<and> 3 \<le> rows dev"
  then show "keyAddress dev (Some (PStr ''19'')) = (3, 2)"
    by (simp add: keyAddress_def clampInt_def parse19 Let_def)
next
  assume "columns dev = 8 \<and> 3 \<le> rows dev"
  then show "keyAddress dev (Some (PStr ''2/3'')) = (3, 2)"
    by (simp add: keyAddress_def clampInt_def parse2 parse3 elemString_def Let_def)
next
  fix key
  show "0 \<le> fst (keyAddress dev key)" "fst (keyAddress dev key) \<le> columns dev - 1"
    "0 \<le> snd (keyAddress dev key)" "snd (keyAddress dev key) \<le> rows dev - 1"
    using keyAddress_bounds [OF assms, of key] by simp_all
qed

definition deck8x4 :: device where
  "deck8x4 = \<lparr>id_dev = ''dev1'', columns = 8, rows = 4, bitmap = 72, backgroundColor = ''#000000'',
     backgroundOpacity = 60, alwaysOnTop = False, movable = False, disableButtonPresses = False\<rparr>"

lemma parse99: "parseInt10 ''99'' = Num 99"
  by (simp add: parseInt10_def isWhiteSpace_def isDigit_def digitVal_def digitsValue_def doubleOverflow_def Let_def)
lemma parse9: "parseInt10 ''9'' = Num 9"
  by (simp add: parseInt10_def isWhiteSpace_def isDigit_def digitVal_def digitsValue_def doubleOverflow_def Let_def)

theorem key_addressing_witness:
  "1 \<le> columns deck8x4 \<and> 1 \<le> rows deck8x4 \<and> columns deck8x4 = 8 \<and> 3 \<le> rows deck8x4
   \<and> keyAddress deck8x4 (Some (PStr ''19'')) = (3, 2)
   \<and> keyAddress deck8x4 (Some (PStr ''2/3'')) = (3, 2)
   \<and> CHR ''/'' \<notin> set ''99'' \<and> parseInt10 ''99'' = Num 99
   \<and> keyAddress deck8x4 (Some (PStr ''99'')) = (7, 3)
   \<and> CHR ''/'' \<notin> set ''9'' \<and> parseInt10 ''9'' = Num 9
   \<and> keyAddress deck8x4 (Some (PStr (''9'' @ ''/'' @ ''99''))) = (7, 3)"
proof -
  have d: "1 \<le> columns deck8x4" "1 \<le> rows deck8x4" "columns deck8x4 = 8" "3 \<le> rows deck8x4"
    by (simp_all add: deck8x4_def)
  note ka = key_addressing [OF d(1,2)]
  have "keyAddress deck8x4 (Some (PStr ''19'')) = (3, 2) \<and> keyAddress deck8x4 (Some (PStr ''2/3'')) = (3, 2)"
    using ka d(3,4) by blast
  moreover have "keyAddress deck8x4 (Some (PStr ''99''))
     = (max 0 (min (columns deck8x4 * rows deck8x4 - 1) 99) mod columns deck8x4,
        max 0 (min (columns deck8x4 * rows deck8x4 - 1) 99) div columns deck8x4)"
    using ka [THEN conjunct1, rule_format, of "''99''" 99] parse99 by simp
  moreover have "keyAddress deck8x4 (Some (PStr (''9'' @ ''/'' @ ''99'')))
     = (max 0 (min (columns deck8x4 - 1) 99), max 0 (min (rows deck8x4 - 1) 9))"
    using ka [THEN conjunct2, THEN conjunct1, rule_format, of "''9''" "''99''" 9 99]
      parse9 parse99 by simp
  ultimately show ?thesis using d parse99 parse9 by (simp add: deck8x4_def)
qed

section \<open>Invariants of the reachable states\<close>

















section \<open>Outgoing commands while disconnected\<close>

definition dialing :: bridge where
  "dialing = connect ''127.0.0.1'' 16622 initial"

text \<open>
  Claim C9. While the socket is absent or the connection flag is false, \<^verbatim>\<open>sendLine\<close>,
  and with it every \<^verbatim>\<open>sendCommand\<close>, returns the state as it was: nothing is
  written to a socket, nothing is raised, and nothing of the line is kept for a later
  transmission.
\<close>

theorem send_while_disconnected:
  assumes "socket s = None \<or> \<not> connected s"
  shows "sendLine line s = s \<and> sendCommand cmd args s = s
         \<and> trace (sendLine line s) = trace s \<and> trace (sendCommand cmd args s) = trace s"
  using assms by (auto simp: sendCommand_def sendLine_def split: option.splits)

theorem send_while_disconnected_witness:
  "socket initial = None
   \<and> sendLine ''PONG 1'' initial = initial
   \<and> sendCommand ''KEY-PRESS'' [(''DEVICEID'', AStr ''dev1''), (''KEY'', ANum 3), (''PRESSED'', ABool True)] initial = initial
   \<and> socket dialing = Some 0 \<and> \<not> connected dialing
   \<and> sendLine ''PONG 1'' dialing = dialing
   \<and> trace (sendLine ''PONG 1'' dialing) = [SocketConnect 0 16622 ''127.0.0.1'']"
proof -
  have a: "socket initial = None" by (simp add: initial_def)
  have b: "socket dialing = Some 0" "\<not> connected dialing"
    by (simp_all add: dialing_def initial_def)
  have t: "trace dialing = [SocketConnect 0 16622 ''127.0.0.1'']"
    by (simp add: dialing_def connect_def disconnect_def initial_def Let_def emit_def)
  have i: "sendLine ''PONG 1'' initial = initial
      \<and> sendCommand ''KEY-PRESS'' [(''DEVICEID'', AStr ''dev1''), (''KEY'', ANum 3), (''PRESSED'', ABool True)] initial = initial"
    using send_while_disconnected [of initial] a by blast
  have d: "sendLine ''PONG 1'' dialing = dialing \<and> trace (sendLine ''PONG 1'' dialing) = trace dialing"
    using send_while_disconnected [of dialing] b by blast
  show ?thesis
    using a b i d t by (elim conjE, intro conjI) (assumption | simp only:)+
qed

section \<open>Idempotent registration\<close>

definition handshaking :: bridge where
  "handshaking = onSocketConnect (connect ''127.0.0.1'' 16622 initial)"

definition addDeviceLine :: "device \<Rightarrow> string" where
  "addDeviceLine dev = joinSpace (''ADD-DEVICE'' # map renderArg (addDeviceArgs dev)) @ [newline]"

lemma showInt_100: "showInt 100 = ''100''"
  by code_simp

lemma addDeviceLine_text:
  "addDeviceLine dev
   = ''ADD-DEVICE DEVICEID='' @ [dquote] @ id_dev dev @ [dquote]
     @ '' PRODUCT_NAME='' @ [dquote] @ ''ScreenDeck '' @ id_dev dev @ [dquote]
     @ '' KEYS_TOTAL='' @ showInt (columns dev * rows dev)
     @ '' KEYS_PER_ROW='' @ showInt (columns dev)
     @ '' BITMAPS='' @ showInt (bitmap dev)
     @ '' COLORS=1 TEXT=1 TEXT_STYLE=0 VARIABLES='' @ [dquote] @ ''W10='' @ [dquote]
     @ '' BRIGHTNESS=100 PINCODE_LOCK='' @ [dquote, dquote, newline]"
  by (simp add: addDeviceLine_def addDeviceArgs_def renderArg_def showInt_100)

lemma addDeviceLine_verb: "verbOf (addDeviceLine dev) = ''ADD-DEVICE''"
  by (simp add: addDeviceLine_text verbOf_def indexOf_def toUpperCase_def upperChar_def)

lemma addDeviceLine_deck8x4:
  "addDeviceLine deck8x4
   = ''ADD-DEVICE DEVICEID='' @ [dquote] @ ''dev1'' @ [dquote]
     @ '' PRODUCT_NAME='' @ [dquote] @ ''ScreenDeck dev1'' @ [dquote]
     @ '' KEYS_TOTAL=32 KEYS_PER_ROW=8 BITMAPS=72 COLORS=1 TEXT=1 TEXT_STYLE=0 VARIABLES=''
     @ [dquote] @ ''W10='' @ [dquote] @ '' BRIGHTNESS=100 PINCODE_LOCK='' @ [dquote, dquote, newline]"
  by code_simp

lemma joinSpace_last:
  "xs \<noteq> [] \<Longrightarrow> last xs \<noteq> [] \<Longrightarrow> joinSpace xs \<noteq> [] \<and> last (joinSpace xs) = last (last xs)"
  by (induction xs rule: joinSpace.induct) auto

lemma last_addDeviceArgs: "last (map renderArg (addDeviceArgs dev)) = ''PINCODE_LOCK='' @ [dquote, dquote]"
  by (simp add: addDeviceArgs_def renderArg_def)

lemma addDevice_unterminated:
  "\<not> endsWithNewline (joinSpace (''ADD-DEVICE'' # map renderArg (addDeviceArgs dev)))"
proof -
  have ne: "map renderArg (addDeviceArgs dev) \<noteq> []" by (simp add: addDeviceArgs_def)
  then have l: "last (''ADD-DEVICE'' # map renderArg (addDeviceArgs dev)) = ''PINCODE_LOCK='' @ [dquote, dquote]"
    using last_addDeviceArgs [of dev] by simp
  have "last (joinSpace (''ADD-DEVICE'' # map renderArg (addDeviceArgs dev))) = dquote"
    using joinSpace_last [of "''ADD-DEVICE'' # map renderArg (addDeviceArgs dev)"] l by simp
  then show ?thesis by (simp add: endsWithNewline_def dquote_def newline_def)
qed

lemma addDevice_command:
  "connected s \<Longrightarrow> socket s = Some k \<Longrightarrow>
   sendCommand ''ADD-DEVICE'' (addDeviceArgs dev) s = emit [SocketWrite k (addDeviceLine dev)] s"
  using addDevice_unterminated [of dev]
  by (simp add: sendCommand_def sendLine_def addDeviceLine_def)

lemma addDevice_fresh:
  assumes "connected s" "socket s = Some k"
    and "id_dev dev \<notin> registeredDevices s" "id_dev dev \<notin> pendingDevices s"
  shows "addDeviceToCompanion dev s
         = s\<lparr>pendingDevices := insert (id_dev dev) (pendingDevices s),
              trace := trace s @ [SocketWrite k (addDeviceLine dev)]\<rparr>"
  using assms by (simp add: addDeviceToCompanion_def addDevice_command emit_def)

lemma addDevice_known:
  "id_dev dev \<in> registeredDevices s \<or> id_dev dev \<in> pendingDevices s \<Longrightarrow>
   addDeviceToCompanion dev s = s"
  by (simp add: addDeviceToCompanion_def)

lemma addDevice_offline:
  "\<not> connected s \<or> socket s = None \<Longrightarrow> addDeviceToCompanion dev s = s"
  by (simp add: addDeviceToCompanion_def)

lemma addDevice_fresh_pending:
  assumes "connected s" "socket s = Some k"
    and "id_dev dev \<notin> registeredDevices s" "id_dev dev \<notin> pendingDevices s"
  shows "pendingDevices (addDeviceToCompanion dev s) = insert (id_dev dev) (pendingDevices s)"
proof -
  have "pendingDevices (addDeviceToCompanion dev s)
        = pendingDevices (s\<lparr>pendingDevices := insert (id_dev dev) (pendingDevices s),
              trace := trace s @ [SocketWrite k (addDeviceLine dev)]\<rparr>)"
    by (rule arg_cong [where f = pendingDevices]) (rule addDevice_fresh [OF assms])
  also have "\<dots> = insert (id_dev dev) (pendingDevices s)" by simp
  finally show ?thesis .
qed

lemma addDevice_fresh_trace:
  assumes "connected s" "socket s = Some k"
    and "id_dev dev \<notin> registeredDevices s" "id_dev dev \<notin> pendingDevices s"
  shows "trace (addDeviceToCompanion dev s) = trace s @ [SocketWrite k (addDeviceLine dev)]"
proof -
  have "trace (addDeviceToCompanion dev s)
        = trace (s\<lparr>pendingDevices := insert (id_dev dev) (pendingDevices s),
              trace := trace s @ [SocketWrite k (addDeviceLine dev)]\<rparr>)"
    by (rule arg_cong [where f = trace]) (rule addDevice_fresh [OF assms])
  also have "\<dots> = trace s @ [SocketWrite k (addDeviceLine dev)]" by simp
  finally show ?thesis .
qed

lemma addDevice_twice:
  "addDeviceToCompanion dev (addDeviceToCompanion dev s) = addDeviceToCompanion dev s"
proof (cases "socket s")
  case None
  then have "addDeviceToCompanion dev s = s" by (simp add: addDevice_offline)
  then show ?thesis by (rule arg_cong [where f = "addDeviceToCompanion dev"])
next
  case (Some k)
  show ?thesis
  proof (cases "connected s \<and> id_dev dev \<notin> registeredDevices s \<and> id_dev dev \<notin> pendingDevices s")
    case True
    then have "id_dev dev \<in> pendingDevices (addDeviceToCompanion dev s)"
      using Some by (simp add: addDevice_fresh_pending [of s k dev])
    then show ?thesis by (rule addDevice_known [OF disjI2])
  next
    case False
    then have "(\<not> connected s \<or> socket s = None)
        \<or> (id_dev dev \<in> registeredDevices s \<or> id_dev dev \<in> pendingDevices s)"
      by blast
    then have "addDeviceToCompanion dev s = s"
    proof
      assume "\<not> connected s \<or> socket s = None"
      then show ?thesis by (rule addDevice_offline)
    next
      assume "id_dev dev \<in> registeredDevices s \<or> id_dev dev \<in> pendingDevices s"
      then show ?thesis by (rule addDevice_known)
    qed
    then show ?thesis by (rule arg_cong [where f = "addDeviceToCompanion dev"])
  qed
qed

lemma handshaking_fields:
  "connected handshaking" "socket handshaking = Some 0" "pendingDevices handshaking = {}"
  "registeredDevices handshaking = {}" "trace handshaking = [SocketConnect 0 16622 ''127.0.0.1'']"
  by (simp_all add: handshaking_def onSocketConnect_def initial_def connect_def disconnect_def
      Let_def emit_def)

text \<open>
  Claim C6. Calling \<^verbatim>\<open>addDeviceToCompanion\<close> twice for a device that is neither
  pending nor registered, on a connected bridge and with no acknowledgment in between,
  makes exactly one write to the socket and leaves the id once in the pending set. The
  line written is the \<^verbatim>\<open>ADD-DEVICE\<close> command of the device: the verb, then the
  eleven arguments \<^verbatim>\<open>DEVICEID\<close> to \<^verbatim>\<open>PINCODE_LOCK\<close> separated by one space,
  strings in double quotes, numbers in decimal, flags as \<^verbatim>\<open>1\<close> or \<^verbatim>\<open>0\<close>, and a
  line feed; for the device \<^verbatim>\<open>dev1\<close> of 8 by 4 keys it is given in full. A call for a device that is already pending or registered returns the
  state as it was; and in every state the second of two calls changes nothing.
\<close>

theorem registration_idempotent:
  "(connected s \<and> socket s = Some k
      \<and> id_dev dev \<notin> registeredDevices s \<and> id_dev dev \<notin> pendingDevices s \<longrightarrow>
      trace (addDeviceToCompanion dev (addDeviceToCompanion dev s))
        = trace s @ [SocketWrite k (addDeviceLine dev)]
      \<and> pendingDevices (addDeviceToCompanion dev (addDeviceToCompanion dev s))
        = insert (id_dev dev) (pendingDevices s)
      \<and> registeredDevices (addDeviceToCompanion dev (addDeviceToCompanion dev s))
        = registeredDevices s)
   \<and> (id_dev dev \<in> pendingDevices s \<or> id_dev dev \<in> registeredDevices s \<longrightarrow>
        addDeviceToCompanion dev s = s)
   \<and> addDeviceToCompanion dev (addDeviceToCompanion dev s) = addDeviceToCompanion dev s
   \<and> addDeviceLine dev
       = ''ADD-DEVICE DEVICEID='' @ [dquote] @ id_dev dev @ [dquote]
         @ '' PRODUCT_NAME='' @ [dquote] @ ''ScreenDeck '' @ id_dev dev @ [dquote]
         @ '' KEYS_TOTAL='' @ showInt (columns dev * rows dev)
         @ '' KEYS_PER_ROW='' @ showInt (columns dev)
         @ '' BITMAPS='' @ showInt (bitmap dev)
         @ '' COLORS=1 TEXT=1 TEXT_STYLE=0 VARIABLES='' @ [dquote] @ ''W10='' @ [dquote]
         @ '' BRIGHTNESS=100 PINCODE_LOCK='' @ [dquote, dquote, newline]
   \<and> verbOf (addDeviceLine dev) = ''ADD-DEVICE''
   \<and> addDeviceLine deck8x4
       = ''ADD-DEVICE DEVICEID='' @ [dquote] @ ''dev1'' @ [dquote]
         @ '' PRODUCT_NAME='' @ [dquote] @ ''ScreenDeck dev1'' @ [dquote]
         @ '' KEYS_TOTAL=32 KEYS_PER_ROW=8 BITMAPS=72 COLORS=1 TEXT=1 TEXT_STYLE=0 VARIABLES=''
         @ [dquote] @ ''W10='' @ [dquote] @ '' BRIGHTNESS=100 PINCODE_LOCK='' @ [dquote, dquote, newline]"
proof (intro conjI impI)
  show "addDeviceLine deck8x4
       = ''ADD-DEVICE DEVICEID='' @ [dquote] @ ''dev1'' @ [dquote]
         @ '' PRODUCT_NAME='' @ [dquote] @ ''ScreenDeck dev1'' @ [dquote]
         @ '' KEYS_TOTAL=32 KEYS_PER_ROW=8 BITMAPS=72 COLORS=1 TEXT=1 TEXT_STYLE=0 VARIABLES=''
         @ [dquote] @ ''W10='' @ [dquote] @ '' BRIGHTNESS=100 PINCODE_LOCK='' @ [dquote, dquote, newline]"
    by (rule addDeviceLine_deck8x4)
  show "addDeviceLine dev
       = ''ADD-DEVICE DEVICEID='' @ [dquote] @ id_dev dev @ [dquote]
         @ '' PRODUCT_NAME='' @ [dquote] @ ''ScreenDeck '' @ id_dev dev @ [dquote]
         @ '' KEYS_TOTAL='' @ showInt (columns dev * rows dev)
         @ '' KEYS_PER_ROW='' @ showInt (columns dev)
         @ '' BITMAPS='' @ showInt (bitmap dev)
         @ '' COLORS=1 TEXT=1 TEXT_STYLE=0 VARIABLES='' @ [dquote] @ ''W10='' @ [dquote]
         @ '' BRIGHTNESS=100 PINCODE_LOCK='' @ [dquote, dquote, newline]"
    by (rule addDeviceLine_text)
  show "verbOf (addDeviceLine dev) = ''ADD-DEVICE''"
    by (rule addDeviceLine_verb)
next
  assume h: "connected s \<and> socket s = Some k
      \<and> id_dev dev \<notin> registeredDevices s \<and> id_dev dev \<notin> pendingDevices s"
  show "trace (addDeviceToCompanion dev (addDeviceToCompanion dev s))
        = trace s @ [SocketWrite k (addDeviceLine dev)]"
    using h by (simp only: addDevice_twice) (simp add: addDevice_fresh_trace)
  show "pendingDevices (addDeviceToCompanion dev (addDeviceToCompanion dev s))
        = insert (id_dev dev) (pendingDevices s)"
    using h by (simp only: addDevice_twice) (simp add: addDevice_fresh_pending)
  show "registeredDevices (addDeviceToCompanion dev (addDeviceToCompanion dev s))
        = registeredDevices s"
    by simp
next
  assume "id_dev dev \<in> pendingDevices s \<or> id_dev dev \<in> registeredDevices s"
  then have "id_dev dev \<in> registeredDevices s \<or> id_dev dev \<in> pendingDevices s"
    by blast
  then show "addDeviceToCompanion dev s = s"
    by (rule addDevice_known)
next
  show "addDeviceToCompanion dev (addDeviceToCompanion dev s) = addDeviceToCompanion dev s"
    by (rule addDevice_twice)
qed

theorem registration_idempotent_witness:
  "connected handshaking \<and> socket handshaking = Some 0
   \<and> id_dev deck8x4 \<notin> registeredDevices handshaking \<and> id_dev deck8x4 \<notin> pendingDevices handshaking
   \<and> trace (addDeviceToCompanion deck8x4 (addDeviceToCompanion deck8x4 handshaking))
       = [SocketConnect 0 16622 ''127.0.0.1''] @ [SocketWrite 0 (addDeviceLine deck8x4)]
   \<and> pendingDevices (addDeviceToCompanion deck8x4 (addDeviceToCompanion deck8x4 handshaking))
       = {id_dev deck8x4}
   \<and> addDeviceToCompanion deck8x4 (addDeviceToCompanion deck8x4 handshaking)
       = addDeviceToCompanion deck8x4 handshaking
   \<and> addDeviceLine deck8x4
       = ''ADD-DEVICE DEVICEID='' @ [dquote] @ ''dev1'' @ [dquote]
         @ '' PRODUCT_NAME='' @ [dquote] @ ''ScreenDeck dev1'' @ [dquote]
         @ '' KEYS_TOTAL=32 KEYS_PER_ROW=8 BITMAPS=72 COLORS=1 TEXT=1 TEXT_STYLE=0 VARIABLES=''
         @ [dquote] @ ''W10='' @ [dquote] @ '' BRIGHTNESS=100 PINCODE_LOCK='' @ [dquote, dquote, newline]"
proof -
  have h: "connected handshaking \<and> socket handshaking = Some 0
      \<and> id_dev deck8x4 \<notin> registeredDevices handshaking \<and> id_dev deck8x4 \<notin> pendingDevices handshaking"
    by (simp add: handshaking_fields)
  have r: "trace (addDeviceToCompanion deck8x4 (addDeviceToCompanion deck8x4 handshaking))
        = trace handshaking @ [SocketWrite 0 (addDeviceLine deck8x4)]
      \<and> pendingDevices (addDeviceToCompanion deck8x4 (addDeviceToCompanion deck8x4 handshaking))
        = insert (id_dev deck8x4) (pendingDevices handshaking)"
    using registration_idempotent [of handshaking 0 deck8x4, THEN conjunct1, rule_format, OF h]
    by (elim conjE) (intro conjI; assumption)
  have t: "addDeviceToCompanion deck8x4 (addDeviceToCompanion deck8x4 handshaking)
       = addDeviceToCompanion deck8x4 handshaking"
    by (rule registration_idempotent [of handshaking 0 deck8x4, THEN conjunct2, THEN conjunct2,
        THEN conjunct1])
  have r1: "trace (addDeviceToCompanion deck8x4 (addDeviceToCompanion deck8x4 handshaking))
       = [SocketConnect 0 16622 ''127.0.0.1''] @ [SocketWrite 0 (addDeviceLine deck8x4)]"
    using r by (simp only: handshaking_fields)
  have r2: "pendingDevices (addDeviceToCompanion deck8x4 (addDeviceToCompanion deck8x4 handshaking))
       = {id_dev deck8x4}"
    using r by (simp only: handshaking_fields)
  note l = registration_idempotent [of handshaking 0 deck8x4, THEN conjunct2, THEN conjunct2,
      THEN conjunct2, THEN conjunct2, THEN conjunct2]
  show ?thesis
    using h r1 r2 t l by (elim conjE) (intro conjI; assumption)
qed

section \<open>Concrete states for the examples\<close>

text \<open>
  A stand-in for \<^verbatim>\<open>Buffer\<close> that copies code units; no example below decodes a
  payload. The bridge starts with no device configured, so that \<^verbatim>\<open>init\<close> returns
  and the configuration callback is registered. The configuration then changes to one
  device of 8 by 4 keys, \<^verbatim>\<open>dev1\<close>: the callback rebuilds the device table and
  raises before it reconnects, so the connection is made by a call of
  \<^verbatim>\<open>reconnect\<close>. \<open>online\<close> is the bridge after the socket's \<^verbatim>\<open>connect\<close> event,
  \<open>greeted\<close> after the peer's \<^verbatim>\<open>BEGIN\<close> as well.
\<close>

definition plainBuffer :: buffer_lib where
  "plainBuffer = \<lparr>fromBase64 = map of_char, toBase64 = map char_of, utf8 = map char_of\<rparr>"

definition rawDeck :: "string \<Rightarrow> raw_device" where
  "rawDeck i = \<lparr>raw_id = Some i, raw_columns = ''8'', raw_rows = ''4'', raw_bitmap = ''72'',
     raw_backgroundColor = Some ''#000000'', raw_backgroundOpacity = ''60'',
     raw_alwaysOnTop = False, raw_movable = False, raw_disableButtonPresses = False\<rparr>"

definition oneDeck :: sd_config where
  "oneDeck = \<lparr>companionHost = Some ''127.0.0.1'', companionPort = ''16622'',
     cfg_devices = [Some (rawDeck ''dev1'')]\<rparr>"

definition started :: "event list" where
  "started = [Init (Some 8090) emptyConfig, ConfigChanged oneDeck, Reconnect, SocketConnected]"

definition online :: bridge where
  "online = run plainBuffer started"

definition beginChunk :: string where
  "beginChunk = ''BEGIN ApiVersion='' @ [dquote] @ ''1.0.0'' @ [dquote, newline]"

definition greeted :: bridge where
  "greeted = run plainBuffer (started @ [SocketData beginChunk])"

definition ackGhost :: string where
  "ackGhost = ''ADD-DEVICE DEVICEID=ghost OK=1''"

definition ackDev1 :: string where
  "ackDev1 = ''ADD-DEVICE DEVICEID='' @ [dquote] @ ''dev1'' @ [dquote] @ '' OK=1''"

definition nackDev1 :: string where
  "nackDev1 = ''ADD-DEVICE DEVICEID=dev1 OK=0 ERROR=refused''"

definition ackFlag :: string where
  "ackFlag = ''ADD-DEVICE DEVICEID OK=1''"

lemma reconnect_socket:
  "socket (reconnect s) = (if devices s = [] then None else Some (nextSocket s))"
  "connecting (reconnect s) = (devices s \<noteq> [])"
  by (simp_all add: reconnect_def Let_def)




lemma online_fields:
  "socket online = Some 0" "connected online" "connecting online"
  "pendingDevices online = {}" "registeredDevices online = {}" "windows online = []"
  "buffer online = []" "lastBegin online = None" "reconnectTimer online = None" "timers online = []"
  by code_simp+

lemma greeted_fields:
  "pendingDevices greeted = {''dev1''}" "registeredDevices greeted = {}"
  "connected greeted" "\<not> connecting greeted" "socket greeted = Some 0"
  by code_simp+

lemma handleLine_verbs:
  "verbOf line = ''ADD-DEVICE'' \<Longrightarrow> handleLine B line s = handleAddDevice (parseParams (bodyOf line)) s"
  "verbOf line = ''KEYS-CLEAR'' \<Longrightarrow>
     handleLineOutcome B line s = handleKeysClear (parseParams (bodyOf line)) s"
  "verbOf line = ''KEY-STATE'' \<Longrightarrow>
     handleLineOutcome B line s = handleKeyState B (parseParams (bodyOf line)) s"
  "verbOf line = ''BEGIN'' \<Longrightarrow> handleLine B line s = handleBegin (parseParams (bodyOf line)) s"
  "verbOf line = ''PING'' \<Longrightarrow> handleLine B line s = sendLine (''PONG '' @ bodyOf line) s"
  by (simp_all add: handleLine_def handleLineOutcome_def Let_def del: handleLine_state)

lemma ackGhost_parsed:
  "verbOf ackGhost = ''ADD-DEVICE''"
  "parseParams (bodyOf ackGhost) ''DEVICEID'' = Some (PStr ''ghost'')"
  "parseParams (bodyOf ackGhost) ''OK'' = Some (PStr ''1'')"
  "parseParams (bodyOf ackGhost) ''ERROR'' = None"
  by code_simp+

lemma ackDev1_parsed:
  "verbOf ackDev1 = ''ADD-DEVICE''"
  "parseParams (bodyOf ackDev1) ''DEVICEID'' = Some (PStr ''dev1'')"
  "parseParams (bodyOf ackDev1) ''OK'' = Some (PStr ''1'')"
  "parseParams (bodyOf ackDev1) ''ERROR'' = None"
  by code_simp+

lemma nackDev1_parsed:
  "verbOf nackDev1 = ''ADD-DEVICE''"
  "parseParams (bodyOf nackDev1) ''DEVICEID'' = Some (PStr ''dev1'')"
  "parseParams (bodyOf nackDev1) ''OK'' = Some (PStr ''0'')"
  "parseParams (bodyOf nackDev1) ''ERROR'' = Some (PStr ''refused'')"
  by code_simp+

lemma ackFlag_parsed:
  "verbOf ackFlag = ''ADD-DEVICE''"
  "parseParams (bodyOf ackFlag) ''DEVICEID'' = Some PTrue"
  by code_simp+

section \<open>Device-add acknowledgment\<close>

text \<open>
  Claim C1, as stated, fails: the \<^verbatim>\<open>ADD-DEVICE\<close> branch never looks the id up in the
  pending set. In \<open>online\<close> no device is pending; the acknowledgment
  \<^verbatim>\<open>ADD-DEVICE DEVICEID=ghost OK=1\<close> still puts \<^verbatim>\<open>ghost\<close> into the registered set.
\<close>

theorem add_device_ack_counterexample:
  "verbOf ackGhost = ''ADD-DEVICE''
   \<and> parseParams (bodyOf ackGhost) ''DEVICEID'' = Some (PStr ''ghost'')
   \<and> ''ghost'' \<notin> pendingDevices online
   \<and> registeredDevices online = {}
   \<and> registeredDevices (handleLine plainBuffer ackGhost online) = {''ghost''}"
  by (simp add: handleLine_verbs ackGhost_parsed handleAddDevice_def online_fields)

text \<open>
  Claim C1, amended. An acknowledgment whose \<^verbatim>\<open>DEVICEID\<close> is a non-empty string has
  that id removed from the pending set; if \<^verbatim>\<open>OK\<close> is the bare flag or \<^verbatim>\<open>1\<close> and
  \<^verbatim>\<open>ERROR\<close> is absent or empty, the id is added to the registered set, whether or not
  it was pending; otherwise the registered set is left as it is. An acknowledgment whose
  \<^verbatim>\<open>DEVICEID\<close> is absent, a bare flag or empty changes nothing. In each case no other
  part of the state changes.
\<close>

theorem add_device_ack:
  assumes "verbOf line = ''ADD-DEVICE''"
  shows "(\<forall>d. parseParams (bodyOf line) ''DEVICEID'' = Some (PStr d) \<and> d \<noteq> []
            \<and> (parseParams (bodyOf line) ''OK'' = Some PTrue
                \<or> parseParams (bodyOf line) ''OK'' = Some (PStr ''1''))
            \<and> (parseParams (bodyOf line) ''ERROR'' = None
                \<or> parseParams (bodyOf line) ''ERROR'' = Some (PStr [])) \<longrightarrow>
            handleLine B line s
            = s\<lparr>pendingDevices := pendingDevices s - {d},
                 registeredDevices := insert d (registeredDevices s)\<rparr>)
       \<and> (\<forall>d. parseParams (bodyOf line) ''DEVICEID'' = Some (PStr d) \<and> d \<noteq> []
            \<and> \<not> ((parseParams (bodyOf line) ''OK'' = Some PTrue
                   \<or> parseParams (bodyOf line) ''OK'' = Some (PStr ''1''))
                  \<and> (parseParams (bodyOf line) ''ERROR'' = None
                      \<or> parseParams (bodyOf line) ''ERROR'' = Some (PStr []))) \<longrightarrow>
            handleLine B line s = s\<lparr>pendingDevices := pendingDevices s - {d}\<rparr>)
       \<and> (parseParams (bodyOf line) ''DEVICEID'' = None
            \<or> parseParams (bodyOf line) ''DEVICEID'' = Some PTrue
            \<or> parseParams (bodyOf line) ''DEVICEID'' = Some (PStr []) \<longrightarrow>
            handleLine B line s = s)"
  unfolding handleLine_verbs(1) [OF assms] handleAddDevice_def
  by (auto simp: Let_def split: option.splits pval.splits)

theorem add_device_ack_witness:
  "verbOf ackDev1 = ''ADD-DEVICE'' \<and> verbOf nackDev1 = ''ADD-DEVICE'' \<and> verbOf ackFlag = ''ADD-DEVICE''
   \<and> pendingDevices greeted = {''dev1''} \<and> registeredDevices greeted = {}
   \<and> pendingDevices (handleLine plainBuffer ackDev1 greeted) = {}
   \<and> registeredDevices (handleLine plainBuffer ackDev1 greeted) = {''dev1''}
   \<and> pendingDevices (handleLine plainBuffer nackDev1 greeted) = {}
   \<and> registeredDevices (handleLine plainBuffer nackDev1 greeted) = {}
   \<and> handleLine plainBuffer ackFlag greeted = greeted"
proof -
  have a: "handleLine plainBuffer ackDev1 greeted
      = greeted\<lparr>pendingDevices := pendingDevices greeted - {''dev1''},
                registeredDevices := insert ''dev1'' (registeredDevices greeted)\<rparr>"
    using add_device_ack [OF ackDev1_parsed(1), of plainBuffer greeted, THEN conjunct1, rule_format, of "''dev1''"]
    by (simp add: ackDev1_parsed)
  have n: "handleLine plainBuffer nackDev1 greeted
      = greeted\<lparr>pendingDevices := pendingDevices greeted - {''dev1''}\<rparr>"
    using add_device_ack [OF nackDev1_parsed(1), of plainBuffer greeted, THEN conjunct2, THEN conjunct1,
        rule_format, of "''dev1''"]
    by (simp add: nackDev1_parsed)
  have f: "handleLine plainBuffer ackFlag greeted = greeted"
    by (rule add_device_ack [OF ackFlag_parsed(1), of plainBuffer greeted, THEN conjunct2, THEN conjunct2,
        rule_format]) (simp add: ackFlag_parsed)
  have a1: "pendingDevices (handleLine plainBuffer ackDev1 greeted) = {}"
    by (subst a) (simp add: greeted_fields)
  have a2: "registeredDevices (handleLine plainBuffer ackDev1 greeted) = {''dev1''}"
    by (subst a) (simp add: greeted_fields)
  have n1: "pendingDevices (handleLine plainBuffer nackDev1 greeted) = {}"
    by (subst n) (simp add: greeted_fields)
  have n2: "registeredDevices (handleLine plainBuffer nackDev1 greeted) = {}"
    by (subst n) (simp add: greeted_fields)
  show ?thesis
    using ackDev1_parsed(1) nackDev1_parsed(1) ackFlag_parsed(1) greeted_fields(1,2) a1 a2 n1 n2 f
    by - (intro conjI; assumption)
qed

section \<open>Clear-keys directive\<close>

definition clearGhost :: string where
  "clearGhost = ''KEYS-CLEAR DEVICEID=ghost''"

definition clearDev1 :: string where
  "clearDev1 = ''KEYS-CLEAR DEVICEID=dev1''"

definition clearNothing :: string where
  "clearNothing = ''KEYS-CLEAR''"

lemma clear_parsed:
  "verbOf clearGhost = ''KEYS-CLEAR''"
  "parseParams (bodyOf clearGhost) ''DEVICEID'' = Some (PStr ''ghost'')"
  "verbOf clearDev1 = ''KEYS-CLEAR''"
  "parseParams (bodyOf clearDev1) ''DEVICEID'' = Some (PStr ''dev1'')"
  "verbOf clearNothing = ''KEYS-CLEAR''"
  "parseParams (bodyOf clearNothing) ''DEVICEID'' = None"
  by code_simp+

text \<open>The bridge of \<open>online\<close> with the window of \<^verbatim>\<open>dev1\<close> open.\<close>

definition shown :: "event list" where
  "shown = started @ [OpenAllWindows]"

definition clearThenPing :: string where
  "clearThenPing = clearDev1 @ [newline] @ ''PING 1'' @ [newline]"

lemma shown_fields:
  "map_of (windows (run plainBuffer shown)) ''dev1'' = Some 0"
  "destroyedWindows (run plainBuffer shown) = {}"
  "map_of (devices (run plainBuffer shown)) ''ghost'' = None"
  "map_of (devices (run plainBuffer shown)) ''dev1'' = Some deck8x4"
  "connected (run plainBuffer shown)"
  "socket (run plainBuffer shown) = Some 0"
  by code_simp+

lemma keysClear_throws:
  "verbOf line = ''KEYS-CLEAR'' \<Longrightarrow> parseParams (bodyOf line) ''DEVICEID'' = Some (PStr d) \<Longrightarrow>
   d \<noteq> [] \<Longrightarrow> handleLineOutcome B line s = Throws s"
  by (simp add: handleLine_verbs(2) handleKeysClear_def safeString_def internalSurfaceClear_def
      andThen_def)

lemma keysClear_empty:
  "verbOf line = ''KEYS-CLEAR'' \<Longrightarrow> safeString (parseParams (bodyOf line) ''DEVICEID'') = [] \<Longrightarrow>
   handleLineOutcome B line s = Returns s"
  by (simp add: handleLine_verbs(2) handleKeysClear_def)

lemma clearThenPing_data:
  "raised (handleData plainBuffer clearThenPing (run plainBuffer shown))"
  "buffer (stateOf (handleData plainBuffer clearThenPing (run plainBuffer shown))) = ''PING 1'' @ [newline]"
  "trace (stateOf (handleData plainBuffer clearThenPing (run plainBuffer shown)))
   = trace (run plainBuffer shown)"
  "trace (stateOf (handleData plainBuffer (''PING 1'' @ [newline]) (run plainBuffer shown)))
   = trace (run plainBuffer shown) @ [SocketWrite 0 (''PONG 1'' @ [newline])]"
  by code_simp+

text \<open>
  Claim C3 does not hold of the code. The \<^verbatim>\<open>KEYS-CLEAR\<close> branch does not look the
  id up in \<^verbatim>\<open>devices\<close>; for every id that is a non-empty string, configured or
  not, it calls \<^verbatim>\<open>API.internalSurfaceClear\<close>, which \<^verbatim>\<open>api.js\<close> does not define.
  The call raises: the registry is not told to clear anything, the line that notifies
  the presentation window is not reached, and the exception leaves \<^verbatim>\<open>handleData\<close>
  with the lines behind the directive unhandled in the buffer. In \<open>run plainBuffer shown\<close>
  the device \<^verbatim>\<open>dev1\<close> is configured and its window is open;
  \<^verbatim>\<open>KEYS-CLEAR DEVICEID=dev1\<close> raises there and sends the window nothing, the same
  line with the unknown id \<^verbatim>\<open>ghost\<close> raises as well instead of being ignored, and a
  \<^verbatim>\<open>PING\<close> that arrives in the same chunk behind the directive is not answered.
\<close>

theorem keys_clear_raises:
  "verbOf clearDev1 = ''KEYS-CLEAR''
   \<and> parseParams (bodyOf clearDev1) ''DEVICEID'' = Some (PStr ''dev1'')
   \<and> map_of (devices (run plainBuffer shown)) ''dev1'' = Some deck8x4
   \<and> map_of (windows (run plainBuffer shown)) ''dev1'' = Some 0
   \<and> destroyedWindows (run plainBuffer shown) = {}
   \<and> handleLineOutcome plainBuffer clearDev1 (run plainBuffer shown) = Throws (run plainBuffer shown)
   \<and> trace (handleLine plainBuffer clearDev1 (run plainBuffer shown)) = trace (run plainBuffer shown)
   \<and> parseParams (bodyOf clearGhost) ''DEVICEID'' = Some (PStr ''ghost'')
   \<and> map_of (devices (run plainBuffer shown)) ''ghost'' = None
   \<and> handleLineOutcome plainBuffer clearGhost (run plainBuffer shown) = Throws (run plainBuffer shown)
   \<and> handleLineOutcome plainBuffer clearNothing (run plainBuffer shown) = Returns (run plainBuffer shown)
   \<and> raised (handleData plainBuffer clearThenPing (run plainBuffer shown))
   \<and> buffer (stateOf (handleData plainBuffer clearThenPing (run plainBuffer shown)))
       = ''PING 1'' @ [newline]
   \<and> trace (stateOf (handleData plainBuffer clearThenPing (run plainBuffer shown)))
       = trace (run plainBuffer shown)
   \<and> trace (stateOf (handleData plainBuffer (''PING 1'' @ [newline]) (run plainBuffer shown)))
       = trace (run plainBuffer shown) @ [SocketWrite 0 (''PONG 1'' @ [newline])]"
proof -
  have d: "handleLineOutcome plainBuffer clearDev1 (run plainBuffer shown) = Throws (run plainBuffer shown)"
    by (rule keysClear_throws [OF clear_parsed(3,4)]) simp
  have g: "handleLineOutcome plainBuffer clearGhost (run plainBuffer shown) = Throws (run plainBuffer shown)"
    by (rule keysClear_throws [OF clear_parsed(1,2)]) simp
  have n: "handleLineOutcome plainBuffer clearNothing (run plainBuffer shown) = Returns (run plainBuffer shown)"
    by (rule keysClear_empty [OF clear_parsed(5)]) (simp add: clear_parsed(6) safeString_def)
  have t: "trace (handleLine plainBuffer clearDev1 (run plainBuffer shown)) = trace (run plainBuffer shown)"
    by (simp add: handleLine_def d del: handleLine_state)
  show ?thesis
    using clear_parsed(3,4) shown_fields(4,1,2) d t clear_parsed(2) shown_fields(3) g n clearThenPing_data
    by - (intro conjI; assumption)
qed

section \<open>Reconnect timer\<close>






lemma scheduleReconnect_no_devices: "devices s = [] \<Longrightarrow> scheduleReconnect s = s"
  by (simp add: scheduleReconnect_def)






section \<open>Disconnect and renewed handshake\<close>

definition beginLine :: string where
  "beginLine = ''BEGIN ApiVersion='' @ [dquote] @ ''1.0.0'' @ [dquote]"

definition registeredRun :: "event list" where
  "registeredRun = started @ [SocketData beginChunk, SocketData (ackDev1 @ [newline])]"



lemma reconnect_nextSocket_trace:
  "devices v \<noteq> [] \<Longrightarrow> socket (reconnect v) = Some (nextSocket v)"
  by (simp add: reconnect_socket)





lemma registeredRun_fields:
  "registeredDevices (run plainBuffer registeredRun) = {''dev1''}"
  "reconnectTimer (step plainBuffer SocketClosed (run plainBuffer registeredRun)) = Some 0"
  "verbOf beginLine = ''BEGIN''"
  "fst ` set (devices (run plainBuffer registeredRun)) = {''dev1''}"
  "pendingDevices (run plainBuffer
      (registeredRun @ [SocketClosed, TimerFired 0, SocketConnected, SocketData beginChunk]))
   = {''dev1''}"
  by code_simp+

lemma begin_without_connection:
  "verbOf line = ''BEGIN'' \<Longrightarrow>
   pendingDevices (handleLine B line (onSocketClose s)) = {}
   \<and> trace (handleLine B line (onSocketClose s)) = trace s"
proof -
  assume verb: "verbOf line = ''BEGIN''"
  have off: "\<And>u ds. \<not> connected u \<Longrightarrow>
      foldl (\<lambda>t dev. addDeviceToCompanion dev t) u ds = u"
  proof -
    fix u :: bridge and ds
    assume "\<not> connected u"
    then show "foldl (\<lambda>t dev. addDeviceToCompanion dev t) u ds = u"
      by (induction ds) (simp_all add: addDeviceToCompanion_def)
  qed
  show ?thesis
    by (simp add: handleLine_verbs(4) [OF verb] handleBegin_def off onSocketClose_def)
qed





section \<open>Connection states and the status flags\<close>

text \<open>The pair \<^verbatim>\<open>(connected, connecting)\<close> that \<^verbatim>\<open>getStatus()\<close> reports.\<close>

definition flags :: "bridge \<Rightarrow> bool \<times> bool" where
  "flags s = (st_connected (getStatus s), st_connecting (getStatus s))"

lemma flags_eq: "flags s = (connected s, connecting s)"
  by (simp add: flags_def getStatus_def)

lemma handleLine_other_flags:
  "verbOf line \<noteq> ''BEGIN'' \<Longrightarrow> connecting (handleLine B line s) = connecting s"
  by (simp add: handleLine_def handleLineOutcome_def Let_def del: handleLine_state)

lemma drainBuffer_connecting:
  "connecting s \<or> \<not> connecting (stateOf (drainBuffer B s))"
proof (induction B s rule: drainBuffer.induct)
  case (1 B s)
  show ?case
  proof (cases "indexOf newline (buffer s)")
    case None
    then show ?thesis by (simp add: drainBuffer.simps [of B s])
  next
    case (Some idx)
    have n: "connecting (stateOf (handleNextLine B idx s)) \<longrightarrow> connecting s"
      by (cases "verbOf (if take idx (buffer s) \<noteq> [] \<and> last (take idx (buffer s)) = carriage_return
                          then butlast (take idx (buffer s)) else take idx (buffer s)) = ''BEGIN''")
         (simp_all add: handleNextLine_def Let_def handleLine_verbs(4) handleLine_other_flags)
    show ?thesis
    proof (cases "handleNextLine B idx s")
      case (Returns t)
      then have e: "drainBuffer B s = drainBuffer B t"
        using Some by (simp add: drainBuffer.simps [of B s])
      have "connecting t \<longrightarrow> connecting s" using n by (simp add: Returns)
      then show ?thesis using "1.IH" [OF Some Returns] by (auto simp only: e)
    next
      case (Throws t)
      then have e: "drainBuffer B s = Throws t"
        using Some by (simp add: drainBuffer.simps [of B s])
      have "connecting t \<longrightarrow> connecting s" using n by (simp add: Throws)
      then show ?thesis by (auto simp only: e stateOf.simps)
    qed
  qed
qed

definition pingLine :: string where
  "pingLine = ''PING 1''"

lemma pingLine_verb: "verbOf pingLine \<noteq> ''BEGIN''"
  by code_simp

text \<open>
  Claim C10. \<^verbatim>\<open>getStatus()\<close> reports \<open>(connected, connecting)\<close> as \<open>(False, False)\<close>
  after the constructor, a disconnect, a socket error or close; \<open>(False, True)\<close> after
  \<^verbatim>\<open>connect\<close>; \<open>(True, True)\<close> after the socket's \<^verbatim>\<open>connect\<close> event; and
  \<open>(True, False)\<close> once \<^verbatim>\<open>BEGIN\<close> is handled after that. \<^verbatim>\<open>BEGIN\<close> sets
  \<^verbatim>\<open>connecting\<close> to false and leaves \<^verbatim>\<open>connected\<close>; every other line, and every
  key press or window event, leaves both flags, so the pair stays \<open>(True, True)\<close> from the
  socket's connect until \<^verbatim>\<open>BEGIN\<close>; incoming data never changes \<^verbatim>\<open>connected\<close>.
\<close>

theorem connection_flags:
  "flags initial = (False, False)
   \<and> flags (step B Disconnect s) = (False, False)
   \<and> flags (step B SocketError s) = (False, False)
   \<and> flags (step B SocketClosed s) = (False, False)
   \<and> flags (connect host port s) = (False, True)
   \<and> flags (step B SocketConnected s) = (True, True)
   \<and> (verbOf line = ''BEGIN'' \<longrightarrow>
        flags (handleLine B line (step B SocketConnected s)) = (True, False))
   \<and> (verbOf line = ''BEGIN'' \<longrightarrow>
        \<not> connecting (handleLine B line s) \<and> connected (handleLine B line s) = connected s)
   \<and> (verbOf line \<noteq> ''BEGIN'' \<longrightarrow> flags (handleLine B line s) = flags s)
   \<and> connected (step B (SocketData chunk) s) = connected s
   \<and> flags (step B (KeyPress deviceId x y pressed) s) = flags s
   \<and> flags (step B (OpenWindow deviceId) s) = flags s
   \<and> flags (step B OpenAllWindows s) = flags s
   \<and> flags (step B (WindowClosed deviceId) s) = flags s
   \<and> flags (step B (WindowDestroyed w) s) = flags s"
proof (intro conjI impI)
  show "flags initial = (False, False)" by (simp add: flags_eq initial_def)
  show "flags (step B Disconnect s) = (False, False)" by (simp add: flags_eq)
  show "flags (step B SocketError s) = (False, False)" by (simp add: flags_eq onSocketError_def)
  show "flags (step B SocketClosed s) = (False, False)" by (simp add: flags_eq onSocketClose_def)
  show "flags (connect host port s) = (False, True)" by (simp add: flags_eq)
  show "flags (step B SocketConnected s) = (True, True)" by (simp add: flags_eq onSocketConnect_def)
  show "connected (step B (SocketData chunk) s) = connected s" by simp
  show "flags (step B (KeyPress deviceId x y pressed) s) = flags s" by (simp add: flags_eq)
  show "flags (step B (OpenWindow deviceId) s) = flags s" by (simp add: flags_eq)
  show "flags (step B OpenAllWindows s) = flags s" by (simp add: flags_eq)
  show "flags (step B (WindowClosed deviceId) s) = flags s" by (simp add: flags_eq onWindowClosed_def)
  show "flags (step B (WindowDestroyed w) s) = flags s" by (simp add: flags_eq)
next
  assume v: "verbOf line = ''BEGIN''"
  show "flags (handleLine B line (step B SocketConnected s)) = (True, False)"
    by (simp add: flags_eq handleLine_verbs(4) [OF v] onSocketConnect_def)
next
  assume v: "verbOf line = ''BEGIN''"
  show "\<not> connecting (handleLine B line s)" by (simp add: handleLine_verbs(4) [OF v])
next
  assume v: "verbOf line = ''BEGIN''"
  show "connected (handleLine B line s) = connected s" by simp
next
  assume "verbOf line \<noteq> ''BEGIN''"
  then show "flags (handleLine B line s) = flags s"
    by (simp add: flags_eq handleLine_other_flags)
qed

theorem connection_flags_witness:
  "flags dialing = (False, True)
   \<and> flags (step plainBuffer SocketConnected dialing) = (True, True)
   \<and> verbOf pingLine \<noteq> ''BEGIN''
   \<and> flags (handleLine plainBuffer pingLine (step plainBuffer SocketConnected dialing)) = (True, True)
   \<and> verbOf beginLine = ''BEGIN''
   \<and> flags (handleLine plainBuffer beginLine (step plainBuffer SocketConnected dialing)) = (True, False)"
proof -
  note t = connection_flags [of plainBuffer "step plainBuffer SocketConnected dialing"
      "''127.0.0.1''" 16622 pingLine]
  note u = connection_flags [of plainBuffer dialing "''127.0.0.1''" 16622 beginLine]
  note w = connection_flags [of plainBuffer initial "''127.0.0.1''" 16622 beginLine]
  have a: "flags dialing = (False, True)"
    using w [THEN conjunct2, THEN conjunct2, THEN conjunct2, THEN conjunct2, THEN conjunct1]
    by (simp only: dialing_def)
  have b: "flags (step plainBuffer SocketConnected dialing) = (True, True)"
    by (rule u [THEN conjunct2, THEN conjunct2, THEN conjunct2, THEN conjunct2, THEN conjunct2,
        THEN conjunct1])
  have c: "flags (handleLine plainBuffer pingLine (step plainBuffer SocketConnected dialing))
      = flags (step plainBuffer SocketConnected dialing)"
    by (rule t [THEN conjunct2, THEN conjunct2, THEN conjunct2, THEN conjunct2, THEN conjunct2,
        THEN conjunct2, THEN conjunct2, THEN conjunct2, THEN conjunct1, rule_format, OF pingLine_verb])
  have c': "flags (handleLine plainBuffer pingLine (step plainBuffer SocketConnected dialing)) = (True, True)"
    by (simp only: c b)
  have d: "flags (handleLine plainBuffer beginLine (step plainBuffer SocketConnected dialing)) = (True, False)"
    by (rule u [THEN conjunct2, THEN conjunct2, THEN conjunct2, THEN conjunct2, THEN conjunct2,
        THEN conjunct2, THEN conjunct1, rule_format, OF registeredRun_fields(3)])
  show ?thesis
    using a b pingLine_verb c' registeredRun_fields(3) d by - (intro conjI; assumption)
qed

section \<open>Surface registry\<close>

text \<open>
  The socket handlers of \<^verbatim>\<open>api.js\<close> that keep the surfaces. The file declares
  \<^verbatim>\<open>clampInt\<close> twice at its top level; a later function declaration replaces an
  earlier one, so every call runs the second, \<^verbatim>\<open>clampInt(value, min, max, fallback)\<close>,
  and a call with three arguments has \<^verbatim>\<open>undefined\<close> (\<open>None\<close>) as its fallback. Its
  upper bound is \<^verbatim>\<open>NaN\<close> (\<open>None\<close>) when the surface has no column or row count, and
  then no comparison with it holds. The first argument is \<^verbatim>\<open>String(value)\<close>.
\<close>

definition api_clampInt :: "string \<Rightarrow> int \<Rightarrow> int option \<Rightarrow> int option" where
  "api_clampInt value_str mn mx =
     (case parseInt10 value_str of
        Num n \<Rightarrow>
          if n < mn then Some mn
          else (case mx of
                  Some m \<Rightarrow> if n > m then Some m else Some n
                | None \<Rightarrow> Some n)
      | _ \<Rightarrow> None)"

definition isIdChar :: "char \<Rightarrow> bool" where
  "isIdChar c \<longleftrightarrow>
     c \<in> set ''abcdefghijklmnopqrstuvwxyzABCDEFGHIJKLMNOPQRSTUVWXYZ0123456789_-''"

text \<open>\<^verbatim>\<open>sanitizeSurfaceId\<close>: \<open>None\<close> is \<^verbatim>\<open>null\<close>; the argument is \<open>Some\<close> of the value
  when it is a string.\<close>

definition sanitizeSurfaceId :: "string option \<Rightarrow> string option" where
  "sanitizeSurfaceId v =
     (case v of
        None \<Rightarrow> None
      | Some s \<Rightarrow>
          (let trimmed = trim s
           in if trimmed = [] then None
              else if \<not> (1 \<le> length trimmed \<and> length trimmed \<le> 64 \<and> list_all isIdChar trimmed)
              then None
              else Some trimmed))"

text \<open>
  A cached key state is an object; its own properties are a map from their names, and a
  property can hold \<^verbatim>\<open>undefined\<close>. The object spread \<^verbatim>\<open>{...a, ...b}\<close> copies every
  own property of \<open>a\<close> and then every own property of \<open>b\<close>, also those that hold
  \<^verbatim>\<open>undefined\<close>: it is \<open>a ++ b\<close>.
\<close>

datatype jsv = JUndefined | JString string

type_synonym key_object = "string \<rightharpoonup> jsv"

record surface =
  surfaceId :: string
  name :: string
  product :: "string option"
  host :: "string option"
  surf_columns :: "int option"
  surf_rows :: "int option"
  connectedAt :: int
  lastSeen :: int
  keys :: "string \<rightharpoonup> key_object"

text \<open>What the registry sends: to one socket, or to all of them.\<close>

datatype emission =
    SurfaceError nat string
  | SurfaceRegistered nat string
  | Surfaces "surface list"
  | SurfaceDrawn string "int option" "int option" key_object

record registry =
  surfaces :: "(string \<times> surface) list"
  surfaceIdBySocketId :: "(nat \<times> string) list"
  emitted :: "emission list"

definition emptyRegistry :: registry where
  "emptyRegistry = \<lparr>surfaces = [], surfaceIdBySocketId = [], emitted = []\<rparr>"

text \<open>
  The payload of \<^verbatim>\<open>surface_register\<close>, as the handler reads it: a field that must be a
  string is \<open>Some\<close> of it when it is one, a number is held as \<^verbatim>\<open>String(field)\<close>, and the
  host, like the address of the socket, is \<open>Some\<close> of it when it is a string that is not
  empty. The handler reads the clock twice; both reads are the instant \<open>now\<close>.
\<close>

record register_info =
  i_surfaceId :: "string option"
  i_name :: "string option"
  i_product :: "string option"
  i_columns :: string
  i_rows :: string
  i_host :: "string option"

definition trimmedOr :: "string option \<Rightarrow> string option" where
  "trimmedOr v = (case v of Some s \<Rightarrow> if trim s \<noteq> [] then Some (trim s) else None | None \<Rightarrow> None)"

definition surface_register ::
    "int \<Rightarrow> nat \<Rightarrow> string option \<Rightarrow> register_info option \<Rightarrow> registry \<Rightarrow> registry" where
  "surface_register now sock ipAddr info r =
     (case sanitizeSurfaceId (case info of Some i \<Rightarrow> i_surfaceId i | None \<Rightarrow> None) of
        None \<Rightarrow> r\<lparr>emitted := emitted r @ [SurfaceError sock ''Invalid surfaceId'']\<rparr>
      | Some sid \<Rightarrow>
          (case info of
             None \<Rightarrow> r
           | Some i \<Rightarrow>
               (let nm = (case trimmedOr (i_name i) of Some n \<Rightarrow> n | None \<Rightarrow> sid);
                    s = \<lparr>surfaceId = sid, name = nm, product = trimmedOr (i_product i),
                         host = (case i_host i of Some h \<Rightarrow> Some h | None \<Rightarrow> ipAddr),
                         surf_columns = api_clampInt (i_columns i) 1 (Some 32),
                         surf_rows = api_clampInt (i_rows i) 1 (Some 32),
                         connectedAt = now, lastSeen = now, keys = Map.empty\<rparr>;
                    r1 = r\<lparr>surfaceIdBySocketId := AList.update sock sid (surfaceIdBySocketId r),
                           surfaces := AList.update sid s (surfaces r)\<rparr>
                in r1\<lparr>emitted := emitted r1 @ [SurfaceRegistered sock sid,
                                                 Surfaces (map snd (surfaces r1))]\<rparr>)))"

text \<open>
  The payload of \<^verbatim>\<open>surface_draw\<close>: the coordinates as \<^verbatim>\<open>String(payload.x)\<close> and
  \<^verbatim>\<open>String(payload.y)\<close>, every other field \<open>Some\<close> of it when it is a string. A payload
  that is \<^verbatim>\<open>null\<close> or \<^verbatim>\<open>undefined\<close> is \<open>None\<close>: reading its coordinates throws, and
  the handler catches that and does nothing.
\<close>

record draw_payload =
  p_surfaceId :: "string option"
  p_x :: string
  p_y :: string
  p_text :: "string option"
  p_bgColor :: "string option"
  p_color :: "string option"
  p_imageBase64 :: "string option"

definition coordString :: "int option \<Rightarrow> string" where
  "coordString c = (case c of Some n \<Rightarrow> showInt n | None \<Rightarrow> ''undefined'')"

definition stringOrUndefined :: "string option \<Rightarrow> jsv" where
  "stringOrUndefined v = (case v of Some s \<Rightarrow> JString s | None \<Rightarrow> JUndefined)"

definition nextState :: "draw_payload \<Rightarrow> key_object" where
  "nextState p =
     [''text'' \<mapsto> stringOrUndefined (p_text p),
      ''bgColor'' \<mapsto> stringOrUndefined (p_bgColor p),
      ''color'' \<mapsto> stringOrUndefined (p_color p),
      ''imageBase64'' \<mapsto> stringOrUndefined (p_imageBase64 p)]"

definition surface_draw :: "int \<Rightarrow> nat \<Rightarrow> draw_payload option \<Rightarrow> registry \<Rightarrow> registry" where
  "surface_draw now sock payload r =
     (case (case sanitizeSurfaceId (case payload of Some p \<Rightarrow> p_surfaceId p | None \<Rightarrow> None) of
              Some i \<Rightarrow> Some i
            | None \<Rightarrow> map_of (surfaceIdBySocketId r) sock) of
        None \<Rightarrow> r
      | Some sid \<Rightarrow>
          (case map_of (surfaces r) sid of
             None \<Rightarrow> r
           | Some s \<Rightarrow>
               (case payload of
                  None \<Rightarrow> r
                | Some p \<Rightarrow>
                    (let x = api_clampInt (p_x p) 0 (map_option (\<lambda>c. c - 1) (surf_columns s));
                         y = api_clampInt (p_y p) 0 (map_option (\<lambda>c. c - 1) (surf_rows s));
                         key = coordString x @ '','' @ coordString y;
                         st = (case keys s key of Some prev \<Rightarrow> prev | None \<Rightarrow> Map.empty)
                                ++ nextState p;
                         s1 = s\<lparr>keys := (keys s)(key \<mapsto> st), lastSeen := now\<rparr>
                     in r\<lparr>surfaces := AList.update sid s1 (surfaces r),
                          emitted := emitted r @ [SurfaceDrawn sid x y st]\<rparr>))))"

text \<open>The value of a property of the key state cached for a key of a surface.\<close>

definition cachedField :: "registry \<Rightarrow> string \<Rightarrow> string \<Rightarrow> string \<Rightarrow> jsv option" where
  "cachedField r sid key field =
     (case map_of (surfaces r) sid of
        None \<Rightarrow> None
      | Some s \<Rightarrow> (case keys s key of None \<Rightarrow> None | Some obj \<Rightarrow> obj field))"

definition dashboardInfo :: register_info where
  "dashboardInfo = \<lparr>i_surfaceId = Some ''dev-1'', i_name = Some ''Deck'', i_product = None,
     i_columns = ''8'', i_rows = ''4'', i_host = None\<rparr>"

definition dashboard :: registry where
  "dashboard = surface_register 1000 7 (Some ''::1'') (Some dashboardInfo) emptyRegistry"

definition drawText :: draw_payload where
  "drawText = \<lparr>p_surfaceId = Some ''dev-1'', p_x = ''0'', p_y = ''0'', p_text = Some ''A'',
     p_bgColor = None, p_color = None, p_imageBase64 = None\<rparr>"

definition drawColor :: draw_payload where
  "drawColor = \<lparr>p_surfaceId = Some ''dev-1'', p_x = ''0'', p_y = ''0'', p_text = None,
     p_bgColor = None, p_color = Some ''#fff'', p_imageBase64 = None\<rparr>"


lemma nextState_fields:
  "nextState p ''text'' = Some (stringOrUndefined (p_text p))"
  "nextState p ''bgColor'' = Some (stringOrUndefined (p_bgColor p))"
  "nextState p ''color'' = Some (stringOrUndefined (p_color p))"
  "nextState p ''imageBase64'' = Some (stringOrUndefined (p_imageBase64 p))"
  by (simp_all add: nextState_def)

lemma surface_draw_cached:
  assumes "sanitizeSurfaceId (p_surfaceId p) = Some sid" "map_of (surfaces r) sid = Some s"
  defines "key \<equiv> coordString (api_clampInt (p_x p) 0 (map_option (\<lambda>c. c - 1) (surf_columns s)))
            @ '','' @ coordString (api_clampInt (p_y p) 0 (map_option (\<lambda>c. c - 1) (surf_rows s)))"
  shows "cachedField (surface_draw now sock (Some p) r) sid key ''text''
           = Some (stringOrUndefined (p_text p))
       \<and> cachedField (surface_draw now sock (Some p) r) sid key ''bgColor''
           = Some (stringOrUndefined (p_bgColor p))
       \<and> cachedField (surface_draw now sock (Some p) r) sid key ''color''
           = Some (stringOrUndefined (p_color p))
       \<and> cachedField (surface_draw now sock (Some p) r) sid key ''imageBase64''
           = Some (stringOrUndefined (p_imageBase64 p))"
  using assms(1,2) unfolding key_def
  by (simp add: surface_draw_def cachedField_def Let_def AList.update_conv' map_add_def nextState_fields)

text \<open>
  Claim C2 asks that a field absent from the draw payload keeps its cached value. The
  handler spreads the previous state and then \<open>nextState\<close>, and \<open>nextState\<close> always has
  all four properties, an absent one holding \<^verbatim>\<open>undefined\<close>; so after any draw every one
  of the four cached fields is that of the payload (\<open>surface_draw_cached\<close>). On the
  surface \<^verbatim>\<open>dev-1\<close>, registered with 8 by 4 keys: a draw of key (0, 0) with the text
  \<^verbatim>\<open>A\<close> caches the text; a second draw of the same key that carries only a colour
  leaves the cached text \<^verbatim>\<open>undefined\<close>.
\<close>

theorem surface_draw_drops_absent_field:
  "cachedField (surface_draw 1001 7 (Some drawText) dashboard) ''dev-1'' ''0,0'' ''text''
     = Some (JString ''A'')
   \<and> p_text drawColor = None
   \<and> cachedField (surface_draw 1002 7 (Some drawColor) (surface_draw 1001 7 (Some drawText) dashboard))
       ''dev-1'' ''0,0'' ''text''
     = Some JUndefined
   \<and> cachedField (surface_draw 1002 7 (Some drawColor) (surface_draw 1001 7 (Some drawText) dashboard))
       ''dev-1'' ''0,0'' ''color''
     = Some (JString ''#fff'')"
  by code_simp

end
